theory Spec2Isabelle
  imports Complex_Main
begin

section \<open>The trading cycle \<open>run\<close>: data model\<close>

text \<open>
  The development embeds the function \<open>run\<close> of the trading orchestrator
  (\<^verbatim>\<open>src/unnamed/part_002\<close>). JavaScript numbers are modelled as exact rationals:
  rounding, infinities and NaN of IEEE doubles are outside the model. A value that may be
  \<^verbatim>\<open>null\<close> or \<^verbatim>\<open>undefined\<close> is an \<open>option\<close>.
\<close>

type_synonym num = rat

datatype Opeartion = Buy | Sell | Hold

datatype Symbol = BTC | ETH | SOL | BNB | DOGE

datatype trend = bullish | bearish | neutral

datatype confidence_level = high | medium | low

record key_levels =
  support :: num
  resistance :: num

record prediction =
  short_term_trend :: trend
  confidence :: confidence_level
  levels :: key_levels
  analysis :: string

record buy_fields =
  pricing :: "num option"
  amount :: "num option"
  leverage :: "num option"
  stopLossPercent :: "num option"
  takeProfitPercent :: "num option"

record sell_fields =
  percentage :: "num option"

record adjust_fields =
  stopLoss :: "num option"
  takeProfit :: "num option"

text \<open>
  A decision as the loop reads it. The object is untyped in the source
  (\<^verbatim>\<open>any\<close>), so every field the code tests against \<^verbatim>\<open>null\<close> is optional here.
  \<open>top_pricing\<close>, \<open>top_amount\<close> and \<open>top_leverage\<close> are the top-level
  \<^verbatim>\<open>decision.pricing\<close>, \<^verbatim>\<open>decision.amount\<close> and \<^verbatim>\<open>decision.leverage\<close> that
  \<^verbatim>\<open>createTradingData\<close> falls back to.
\<close>

record decision =
  opeartion :: Opeartion
  symbol :: Symbol
  buy :: "buy_fields option"
  sell :: "sell_fields option"
  adjustProfit :: "adjust_fields option"
  prediction :: "prediction option"
  chat :: string
  top_pricing :: "num option"
  top_amount :: "num option"
  top_leverage :: "num option"

text \<open>The row handed to \<^verbatim>\<open>tradings.create\<close>.\<close>

record trading =
  t_symbol :: Symbol
  t_opeartion :: Opeartion
  t_pricing :: "num option"
  t_amount :: "num option"
  t_leverage :: "num option"
  t_prediction :: "prediction option"
  t_stopLoss :: "num option"
  t_takeProfit :: "num option"

text \<open>
  The second argument of \<^verbatim>\<open>createTradingData\<close>. \<open>None\<close> is an absent key;
  \<open>Some None\<close> is a key that is present and holds \<^verbatim>\<open>null\<close> or \<^verbatim>\<open>undefined\<close>
  (the object spread copies such a key too).
\<close>

record overrides =
  o_opeartion :: "Opeartion option"
  o_pricing :: "num option option"
  o_amount :: "num option option"
  o_leverage :: "num option option"
  o_stopLoss :: "num option option"
  o_takeProfit :: "num option option"

definition no_overrides :: overrides where
  "no_overrides = \<lparr>o_opeartion = None, o_pricing = None, o_amount = None,
     o_leverage = None, o_stopLoss = None, o_takeProfit = None\<rparr>"

subsection \<open>JavaScript truthiness on numbers\<close>

definition truthy :: "num option \<Rightarrow> bool" where
  "truthy v = (case v of None \<Rightarrow> False | Some x \<Rightarrow> x \<noteq> 0)"

text \<open>\<^verbatim>\<open>a || b\<close>: the left operand when it is truthy, the right operand otherwise.\<close>

definition js_or :: "num option \<Rightarrow> num option \<Rightarrow> num option" where
  "js_or a b = (if truthy a then a else b)"

text \<open>Reading a key of the overrides object: an absent key reads as \<^verbatim>\<open>undefined\<close>.\<close>

definition get_key :: "num option option \<Rightarrow> num option" where
  "get_key k = (case k of None \<Rightarrow> None | Some v \<Rightarrow> v)"

text \<open>\<^verbatim>\<open>decision.buy?.pricing\<close> and its siblings.\<close>

definition buy_pricing :: "decision \<Rightarrow> num option" where
  "buy_pricing d = (case buy d of None \<Rightarrow> None | Some b \<Rightarrow> pricing b)"

definition buy_amount :: "decision \<Rightarrow> num option" where
  "buy_amount d = (case buy d of None \<Rightarrow> None | Some b \<Rightarrow> amount b)"

definition buy_leverage :: "decision \<Rightarrow> num option" where
  "buy_leverage d = (case buy d of None \<Rightarrow> None | Some b \<Rightarrow> leverage b)"

subsection \<open>createTradingData\<close>

text \<open>The object literal before the spread of the overrides.\<close>

definition tradingBase :: "decision \<Rightarrow> overrides \<Rightarrow> trading" where
  "tradingBase d ov =
     \<lparr>t_symbol = symbol d,
      t_opeartion = opeartion d,
      t_pricing = js_or (js_or (js_or (get_key (o_pricing ov)) (buy_pricing d)) (top_pricing d)) None,
      t_amount = js_or (js_or (js_or (get_key (o_amount ov)) (buy_amount d)) (top_amount d)) None,
      t_leverage = js_or (js_or (buy_leverage d) (top_leverage d)) None,
      t_prediction = (case prediction d of None \<Rightarrow> None | Some p \<Rightarrow> Some p),
      t_stopLoss = None,
      t_takeProfit = None\<rparr>"

text \<open>\<^verbatim>\<open>...overrides\<close>: every key that is present replaces the field of the same name.\<close>

definition spread :: "trading \<Rightarrow> overrides \<Rightarrow> trading" where
  "spread t ov =
     \<lparr>t_symbol = t_symbol t,
      t_opeartion = (case o_opeartion ov of None \<Rightarrow> t_opeartion t | Some x \<Rightarrow> x),
      t_pricing = (case o_pricing ov of None \<Rightarrow> t_pricing t | Some v \<Rightarrow> v),
      t_amount = (case o_amount ov of None \<Rightarrow> t_amount t | Some v \<Rightarrow> v),
      t_leverage = (case o_leverage ov of None \<Rightarrow> t_leverage t | Some v \<Rightarrow> v),
      t_prediction = t_prediction t,
      t_stopLoss = (case o_stopLoss ov of None \<Rightarrow> t_stopLoss t | Some v \<Rightarrow> v),
      t_takeProfit = (case o_takeProfit ov of None \<Rightarrow> t_takeProfit t | Some v \<Rightarrow> v)\<rparr>"

definition createTradingData :: "decision \<Rightarrow> overrides \<Rightarrow> trading" where
  "createTradingData d ov = spread (tradingBase d ov) ov"

section \<open>External collaborators\<close>

datatype trading_mode = Live | Virtual

text \<open>Of the risk configuration, \<open>run\<close> itself reads only the trading mode.\<close>

record riskConfig =
  tradingMode :: trading_mode

record verdict =
  allowed :: bool
  reason :: "string option"

text \<open>What \<^verbatim>\<open>buy\<close> and \<^verbatim>\<open>sell\<close> return, as far as \<open>run\<close> reads it.\<close>

record orderResult =
  success :: bool
  orderId :: "string option"
  executedPrice :: "num option"
  executedAmount :: "num option"
  error :: "string option"

record buy_request =
  b_symbol :: string
  b_amount :: num
  b_leverage :: num
  b_stopLossPercent :: "num option"
  b_takeProfitPercent :: "num option"

record sell_request =
  s_symbol :: string
  s_percentage :: num

record sltp_request =
  a_symbol :: string
  a_stopLoss :: "num option"
  a_takeProfit :: "num option"

record sltpResult =
  sl_success :: bool
  sl_error :: "string option"

record open_position =
  p_symbol :: string
  contracts :: num
  p_leverage :: "num option"

record account_position =
  unrealizedPnl :: "num option"

record accountInfo =
  positions :: "account_position list"
  totalCashValue :: num
  availableCash :: num

record logEntry =
  l_action :: string
  l_symbol :: string
  l_amount :: "num option"
  l_price :: "num option"
  l_leverage :: "num option"
  l_orderId :: "string option"
  l_reason :: "string option"

text \<open>
  The messages pushed to \<^verbatim>\<open>allChatMessages\<close>, kept structured: the rendering of the
  numbers with \<^verbatim>\<open>toFixed(2)\<close> is not modelled.
\<close>

datatype chat_message =
    DecisionChat Symbol string
  | BlockedRisk Symbol "string option"
  | BlockedInsufficient Symbol num num

datatype chat_text =
    NoChat
  | Combined "chat_message list"
  | BlockedByRiskControl "string option" "decision list"

record chat_record =
  c_reasoning :: string
  c_chat :: chat_text
  c_userPrompt :: string
  c_tradings :: "trading list"

text \<open>The warnings and errors written to the console (informational lines are left out).\<close>

datatype console_line =
    WarnFetchFailed string
  | ErrorAIFailed string
  | ErrorDailyLoss "string option"
  | WarnBuyMissingFields
  | ErrorRiskControl "string option"
  | WarnInsufficientMargin num num
  | ErrorBuyFailed "string option"
  | WarnSellMissingPercentage
  | WarnFetchPositionFailed string
  | ErrorSellFailed "string option"
  | WarnPositionClosed
  | ErrorSetSLTPFailed "string option"
  | ErrorTrading

text \<open>Every call that leaves the orchestrator, in the order it is made.\<close>

datatype event =
    FetchMarketState string
  | GetAccount "num option"
  | OracleCall string string
  | BuyCall buy_request
  | SellCall sell_request
  | FetchPositions
  | SetSLTPCall sltp_request
  | LogTrade logEntry
  | Console console_line
  | ChatCreate chat_record

type_synonym marketState = string

datatype ai_object =
    DecisionsObject "decision list"
  | LegacyDecision decision
  | OtherObject

record ai_result =
  object :: "ai_object option"
  reasoning :: "string option"
  deepseek_reasoning :: "string option"

datatype oracle_outcome = Timeout | Rejected string | Resolved ai_result

text \<open>
  The collaborators of \<open>run\<close>, none of which is defined in the source file. A gateway
  answers as a function of the calls made before it (the list of events so far); the two
  risk checks and the prompt builders are pure (the time stamp given to the prompt
  builder is left out). The account gateway and the ledger write may throw, which ends the
  cycle. \<^verbatim>\<open>buy\<close>, \<^verbatim>\<open>sell\<close> and \<^verbatim>\<open>setStopLossTakeProfit\<close> report a failure
  in their result, as \<open>run\<close> reads it; a collaborator that throws where \<open>run\<close> expects
  a result is not modelled.
\<close>

record env =
  getRiskConfig :: riskConfig
  getCurrentMarketState :: "event list \<Rightarrow> string \<Rightarrow> string + marketState"
  getAccountInformationAndPerformance :: "event list \<Rightarrow> num option \<Rightarrow> string + accountInfo"
  generateUserPrompt :: "(string \<times> marketState) list \<Rightarrow> accountInfo \<Rightarrow> string"
  getTradingPrompt :: "Symbol list \<Rightarrow> string"
  generateObject :: "event list \<Rightarrow> string \<Rightarrow> string \<Rightarrow> oracle_outcome"
  checkDailyLossLimit :: "num \<Rightarrow> num \<Rightarrow> riskConfig \<Rightarrow> verdict"
  checkBuyRisk :: "num \<Rightarrow> num \<Rightarrow> num \<Rightarrow> num \<Rightarrow> riskConfig \<Rightarrow> verdict"
  buy_order :: "event list \<Rightarrow> buy_request \<Rightarrow> orderResult"
  sell_order :: "event list \<Rightarrow> sell_request \<Rightarrow> orderResult"
  fetchPositions :: "event list \<Rightarrow> string + open_position list"
  setStopLossTakeProfit :: "event list \<Rightarrow> sltp_request \<Rightarrow> sltpResult"
  chat_create :: "event list \<Rightarrow> chat_record \<Rightarrow> string option"

section \<open>The per-decision loop\<close>

text \<open>The variables the loop of \<open>run\<close> mutates, together with the calls made so far.\<close>

record loop_state =
  trace :: "event list"
  remainingAvailableCash :: num
  allTradingRecords :: "trading list"
  allChatMessages :: "chat_message list"

definition emit :: "event \<Rightarrow> loop_state \<Rightarrow> loop_state" where
  "emit e st = st\<lparr>trace := trace st @ [e]\<rparr>"

definition pushRecord :: "trading \<Rightarrow> loop_state \<Rightarrow> loop_state" where
  "pushRecord r st = st\<lparr>allTradingRecords := allTradingRecords st @ [r]\<rparr>"

definition pushChat :: "chat_message \<Rightarrow> loop_state \<Rightarrow> loop_state" where
  "pushChat m st = st\<lparr>allChatMessages := allChatMessages st @ [m]\<rparr>"

fun symbolName :: "Symbol \<Rightarrow> string" where
  "symbolName BTC = ''BTC''"
| "symbolName ETH = ''ETH''"
| "symbolName SOL = ''SOL''"
| "symbolName BNB = ''BNB''"
| "symbolName DOGE = ''DOGE''"

text \<open>\<^verbatim>\<open>`${object.symbol}/USDT`\<close> and the same with the slash removed.\<close>

definition tradingSymbol :: "decision \<Rightarrow> string" where
  "tradingSymbol d = symbolName (symbol d) @ ''/USDT''"

definition binanceSymbol :: "decision \<Rightarrow> string" where
  "binanceSymbol d = symbolName (symbol d) @ ''USDT''"

fun starts_with :: "string \<Rightarrow> string \<Rightarrow> bool" where
  "starts_with [] ys = True"
| "starts_with (x # xs) [] = False"
| "starts_with (x # xs) (y # ys) = (x = y \<and> starts_with xs ys)"

text \<open>\<^verbatim>\<open>hay.includes(needle)\<close>.\<close>

fun str_includes :: "string \<Rightarrow> string \<Rightarrow> bool" where
  "str_includes [] needle = (needle = [])"
| "str_includes (h # hs) needle = (starts_with needle (h # hs) \<or> str_includes hs needle)"

subsection \<open>Buy\<close>

definition requiredMargin :: "num \<Rightarrow> num \<Rightarrow> num \<Rightarrow> num" where
  "requiredMargin a p l = (a * p) / l"

text \<open>A Buy without its payload, or with a payload field that is \<^verbatim>\<open>null\<close>.\<close>

definition buyMissingFields :: "loop_state \<Rightarrow> decision \<Rightarrow> loop_state" where
  "buyMissingFields st d =
     pushRecord
       (createTradingData d
          \<lparr>o_opeartion = Some Hold,
           o_pricing = Some (js_or (buy_pricing d) None),
           o_amount = Some (js_or (buy_amount d) None),
           o_leverage = Some (js_or (buy_leverage d) None),
           o_stopLoss = None, o_takeProfit = None\<rparr>)
       (emit (Console WarnBuyMissingFields) st)"

text \<open>The per-trade risk check denied the Buy.\<close>

definition buyRiskDenied :: "loop_state \<Rightarrow> decision \<Rightarrow> verdict \<Rightarrow> num \<Rightarrow> num \<Rightarrow> num \<Rightarrow> loop_state" where
  "buyRiskDenied st d riskCheck p a l =
     pushRecord
       (createTradingData d
          \<lparr>o_opeartion = None,
           o_pricing = Some (Some p),
           o_amount = Some (Some a),
           o_leverage = Some (Some l),
           o_stopLoss = None, o_takeProfit = None\<rparr>)
       (pushChat (BlockedRisk (symbol d) (reason riskCheck))
          (emit (Console (ErrorRiskControl (reason riskCheck))) st))"

text \<open>The margin does not fit the running balance.\<close>

definition buyInsufficient :: "loop_state \<Rightarrow> decision \<Rightarrow> num \<Rightarrow> loop_state" where
  "buyInsufficient st d m =
     pushRecord
       (createTradingData d (no_overrides\<lparr>o_opeartion := Some Hold\<rparr>))
       (pushChat (BlockedInsufficient (symbol d) m (remainingAvailableCash st))
          (emit (Console (WarnInsufficientMargin m (remainingAvailableCash st))) st))"

definition buyRequest :: "decision \<Rightarrow> buy_fields \<Rightarrow> num \<Rightarrow> num \<Rightarrow> buy_request" where
  "buyRequest d b a l =
     \<lparr>b_symbol = tradingSymbol d, b_amount = a, b_leverage = l,
      b_stopLossPercent = stopLossPercent b,
      b_takeProfitPercent = takeProfitPercent b\<rparr>"

definition buyLogEntry :: "env \<Rightarrow> decision \<Rightarrow> orderResult \<Rightarrow> num \<Rightarrow> num \<Rightarrow> logEntry" where
  "buyLogEntry e d buyResult a l =
     \<lparr>l_action = (if tradingMode (getRiskConfig e) = Live then ''buy'' else ''dry-run-buy''),
      l_symbol = tradingSymbol d,
      l_amount = Some a,
      l_price = executedPrice buyResult,
      l_leverage = Some l,
      l_orderId = orderId buyResult,
      l_reason = (if success buyResult then Some ''Success'' else error buyResult)\<rparr>"

text \<open>The Buy passed both gates: the order is placed.\<close>

definition executeBuy :: "env \<Rightarrow> loop_state \<Rightarrow> decision \<Rightarrow> buy_fields \<Rightarrow> num \<Rightarrow> num \<Rightarrow> num \<Rightarrow> loop_state" where
  "executeBuy e st d b p a l =
     (let buyResult = buy_order e (trace st) (buyRequest d b a l);
          st1 = emit (BuyCall (buyRequest d b a l)) st;
          st2 = (if success buyResult then st1
                 else emit (Console (ErrorBuyFailed (error buyResult))) st1);
          st3 = emit (LogTrade (buyLogEntry e d buyResult a l)) st2;
          st4 = (if success buyResult
                 then st3\<lparr>remainingAvailableCash :=
                        remainingAvailableCash st3 - requiredMargin a p l\<rparr>
                 else st3)
      in pushRecord
           (createTradingData d
              \<lparr>o_opeartion = None,
               o_pricing = Some (js_or (executedPrice buyResult) (Some p)),
               o_amount = Some (js_or (executedAmount buyResult) (Some a)),
               o_leverage = Some (Some l),
               o_stopLoss = None, o_takeProfit = None\<rparr>)
           st4)"

definition checkedBuy :: "env \<Rightarrow> loop_state \<Rightarrow> decision \<Rightarrow> buy_fields \<Rightarrow> num \<Rightarrow> num \<Rightarrow> num \<Rightarrow> loop_state" where
  "checkedBuy e st d b p a l =
     (let riskCheck = checkBuyRisk e a p l (remainingAvailableCash st) (getRiskConfig e)
      in if \<not> allowed riskCheck then buyRiskDenied st d riskCheck p a l
         else if requiredMargin a p l > remainingAvailableCash st
           then buyInsufficient st d (requiredMargin a p l)
         else executeBuy e st d b p a l)"

definition processBuy :: "env \<Rightarrow> loop_state \<Rightarrow> decision \<Rightarrow> loop_state" where
  "processBuy e st d =
     (case buy d of
        None \<Rightarrow> buyMissingFields st d
      | Some b \<Rightarrow>
          (case pricing b of
             None \<Rightarrow> buyMissingFields st d
           | Some p \<Rightarrow>
               (case amount b of
                  None \<Rightarrow> buyMissingFields st d
                | Some a \<Rightarrow>
                    (case leverage b of
                       None \<Rightarrow> buyMissingFields st d
                     | Some l \<Rightarrow> checkedBuy e st d b p a l))))"

subsection \<open>Sell\<close>

definition sellMissingPercentage :: "loop_state \<Rightarrow> decision \<Rightarrow> loop_state" where
  "sellMissingPercentage st d =
     pushRecord
       (createTradingData d (no_overrides\<lparr>o_opeartion := Some Hold\<rparr>))
       (emit (Console WarnSellMissingPercentage) st)"

text \<open>
  The position of the instrument is looked up for its leverage; a failure of the lookup
  is caught and leaves \<^verbatim>\<open>positionInfo\<close> at \<^verbatim>\<open>null\<close>.
\<close>

definition lookupPosition :: "env \<Rightarrow> loop_state \<Rightarrow> decision \<Rightarrow> open_position option \<times> loop_state" where
  "lookupPosition e st d =
     (case fetchPositions e (trace st) of
        Inl err \<Rightarrow> (None, emit (Console (WarnFetchPositionFailed err)) (emit FetchPositions st))
      | Inr ps \<Rightarrow>
          (find (\<lambda>p. p_symbol p = binanceSymbol d \<and> contracts p \<noteq> 0) ps,
           emit FetchPositions st))"

definition sellLogEntry :: "env \<Rightarrow> decision \<Rightarrow> orderResult \<Rightarrow> logEntry" where
  "sellLogEntry e d sellResult =
     \<lparr>l_action = (if tradingMode (getRiskConfig e) = Live then ''sell'' else ''dry-run-sell''),
      l_symbol = tradingSymbol d,
      l_amount = js_or (executedAmount sellResult) (Some 0),
      l_price = executedPrice sellResult,
      l_leverage = None,
      l_orderId = orderId sellResult,
      l_reason = (if success sellResult then Some ''Success'' else error sellResult)\<rparr>"

definition sellFailureLines :: "orderResult \<Rightarrow> loop_state \<Rightarrow> loop_state" where
  "sellFailureLines sellResult st =
     (let st1 = emit (Console (ErrorSellFailed (error sellResult))) st
      in case error sellResult of
           None \<Rightarrow> st1
         | Some msg \<Rightarrow>
             if str_includes msg ''No open position'' then emit (Console WarnPositionClosed) st1
             else st1)"

definition executeSell :: "env \<Rightarrow> loop_state \<Rightarrow> decision \<Rightarrow> num \<Rightarrow> loop_state" where
  "executeSell e st d pct =
     (let (positionInfo, st1) = lookupPosition e st d;
          req = \<lparr>s_symbol = tradingSymbol d, s_percentage = pct\<rparr>;
          sellResult = sell_order e (trace st1) req;
          st2 = emit (SellCall req) st1;
          st3 = (if success sellResult then st2 else sellFailureLines sellResult st2);
          st4 = emit (LogTrade (sellLogEntry e d sellResult)) st3
      in pushRecord
           (createTradingData d
              \<lparr>o_opeartion = None,
               o_pricing = Some (executedPrice sellResult),
               o_amount = Some (js_or (executedAmount sellResult) (Some 0)),
               o_leverage = Some (js_or (case positionInfo of None \<Rightarrow> None
                                         | Some pos \<Rightarrow> p_leverage pos) None),
               o_stopLoss = None, o_takeProfit = None\<rparr>)
           st4)"

definition processSell :: "env \<Rightarrow> loop_state \<Rightarrow> decision \<Rightarrow> loop_state" where
  "processSell e st d =
     (case sell d of
        None \<Rightarrow> sellMissingPercentage st d
      | Some s \<Rightarrow>
          (case percentage s of
             None \<Rightarrow> sellMissingPercentage st d
           | Some pct \<Rightarrow> executeSell e st d pct))"

subsection \<open>Hold\<close>

definition shouldAdjustProfit :: "decision \<Rightarrow> bool" where
  "shouldAdjustProfit d =
     (case adjustProfit d of
        None \<Rightarrow> False
      | Some adj \<Rightarrow> stopLoss adj \<noteq> None \<or> takeProfit adj \<noteq> None)"

definition adjust_stopLoss :: "decision \<Rightarrow> num option" where
  "adjust_stopLoss d = (case adjustProfit d of None \<Rightarrow> None | Some adj \<Rightarrow> stopLoss adj)"

definition adjust_takeProfit :: "decision \<Rightarrow> num option" where
  "adjust_takeProfit d = (case adjustProfit d of None \<Rightarrow> None | Some adj \<Rightarrow> takeProfit adj)"

definition adjustOrders :: "env \<Rightarrow> loop_state \<Rightarrow> decision \<Rightarrow> loop_state" where
  "adjustOrders e st d =
     (let req = \<lparr>a_symbol = tradingSymbol d, a_stopLoss = adjust_stopLoss d,
                 a_takeProfit = adjust_takeProfit d\<rparr>;
          slTpResult = setStopLossTakeProfit e (trace st) req;
          st1 = emit (SetSLTPCall req) st
      in if sl_success slTpResult then st1
         else emit (Console (ErrorSetSLTPFailed (sl_error slTpResult))) st1)"

definition processHold :: "env \<Rightarrow> loop_state \<Rightarrow> decision \<Rightarrow> loop_state" where
  "processHold e st d =
     pushRecord
       (createTradingData d
          \<lparr>o_opeartion = None, o_pricing = None, o_amount = None, o_leverage = None,
           o_stopLoss = Some (js_or (adjust_stopLoss d) None),
           o_takeProfit = Some (js_or (adjust_takeProfit d) None)\<rparr>)
       (if shouldAdjustProfit d then adjustOrders e st d else st)"

subsection \<open>One iteration, and the loop\<close>

definition noteChat :: "loop_state \<Rightarrow> decision \<Rightarrow> loop_state" where
  "noteChat st d =
     (if chat d \<noteq> [] then pushChat (DecisionChat (symbol d) (chat d)) st else st)"

definition processDecision :: "env \<Rightarrow> loop_state \<Rightarrow> decision \<Rightarrow> loop_state" where
  "processDecision e st d =
     (case opeartion d of
        Buy \<Rightarrow> processBuy e (noteChat st d) d
      | Sell \<Rightarrow> processSell e (noteChat st d) d
      | Hold \<Rightarrow> processHold e (noteChat st d) d)"

fun processDecisions :: "env \<Rightarrow> loop_state \<Rightarrow> decision list \<Rightarrow> loop_state" where
  "processDecisions e st [] = st"
| "processDecisions e st (d # ds) = processDecisions e (processDecision e st d) ds"

section \<open>The cycle\<close>

subsection \<open>Snapshot collection\<close>

definition supportedSymbols :: "string list" where
  "supportedSymbols = [''BTC/USDT'', ''ETH/USDT'', ''SOL/USDT'', ''BNB/USDT'', ''DOGE/USDT'']"

definition supportedSymbolEnums :: "Symbol list" where
  "supportedSymbolEnums = [BTC, ETH, SOL, BNB, DOGE]"

text \<open>
  The mapper given to \<^verbatim>\<open>supportedSymbols.map\<close>: its own \<^verbatim>\<open>try/catch\<close> turns a
  failed fetch into the value \<^verbatim>\<open>null\<close>. The result is how the promise settles:
  \<open>Inl\<close> a rejection, \<open>Inr\<close> a value.
\<close>

definition fetchOne ::
  "env \<Rightarrow> event list \<Rightarrow> string \<Rightarrow> (string + (string \<times> marketState) option) \<times> event list" where
  "fetchOne e tr s =
     (case getCurrentMarketState e tr s of
        Inr state \<Rightarrow> (Inr (Some (s, state)), tr @ [FetchMarketState s])
      | Inl err \<Rightarrow> (Inr None, tr @ [FetchMarketState s, Console (WarnFetchFailed s)]))"

text \<open>The fetches are issued in the order of the list; their interleaving is not modelled.\<close>

fun fetchAll ::
  "env \<Rightarrow> event list \<Rightarrow> string list \<Rightarrow> (string + (string \<times> marketState) option) list \<times> event list" where
  "fetchAll e tr [] = ([], tr)"
| "fetchAll e tr (s # ss) =
     (let (r, tr1) = fetchOne e tr s;
          (rs, tr2) = fetchAll e tr1 ss
      in (r # rs, tr2))"

text \<open>\<^verbatim>\<open>Promise.all\<close>: rejects when one of the promises rejects, else the list of values.\<close>

fun promise_all :: "(string + 'a) list \<Rightarrow> string + 'a list" where
  "promise_all [] = Inr []"
| "promise_all (Inl err # ps) = Inl err"
| "promise_all (Inr v # ps) =
     (case promise_all ps of Inl err \<Rightarrow> Inl err | Inr vs \<Rightarrow> Inr (v # vs))"

text \<open>\<^verbatim>\<open>marketStates.filter(item => item !== null)\<close>.\<close>

fun validMarketStates :: "'a option list \<Rightarrow> 'a list" where
  "validMarketStates [] = []"
| "validMarketStates (None # xs) = validMarketStates xs"
| "validMarketStates (Some x # xs) = x # validMarketStates xs"

subsection \<open>The oracle call\<close>

text \<open>
  The schema handed to \<^verbatim>\<open>generateObject\<close>, which validates the provider's output
  against it and rejects on a mismatch. Keys the schema does not name are stripped.
\<close>

definition buySchema :: "buy_fields \<Rightarrow> bool" where
  "buySchema b =
     (pricing b \<noteq> None \<and> amount b \<noteq> None \<and>
      (case leverage b of None \<Rightarrow> False | Some l \<Rightarrow> 1 \<le> l \<and> l \<le> 30))"

definition sellSchema :: "sell_fields \<Rightarrow> bool" where
  "sellSchema s = (case percentage s of None \<Rightarrow> False | Some pct \<Rightarrow> 0 \<le> pct \<and> pct \<le> 100)"

definition decisionSchema :: "decision \<Rightarrow> bool" where
  "decisionSchema d =
     ((case buy d of None \<Rightarrow> True | Some b \<Rightarrow> buySchema b) \<and>
      (case sell d of None \<Rightarrow> True | Some s \<Rightarrow> sellSchema s) \<and>
      prediction d \<noteq> None)"

definition stripDecision :: "decision \<Rightarrow> decision" where
  "stripDecision d = d\<lparr>top_pricing := None, top_amount := None, top_leverage := None\<rparr>"

definition parseObject :: "ai_object option \<Rightarrow> ai_object option" where
  "parseObject ob =
     (case ob of
        Some (DecisionsObject ds) \<Rightarrow>
          if 1 \<le> length ds \<and> length ds \<le> 5 \<and> list_all decisionSchema ds
          then Some (DecisionsObject (map stripDecision ds))
          else None
      | _ \<Rightarrow> None)"

fun join :: "string \<Rightarrow> string list \<Rightarrow> string" where
  "join sep [] = []"
| "join sep [x] = x"
| "join sep (x # y # ys) = x @ sep @ join sep (y # ys)"

definition decisionsOf :: "ai_object \<Rightarrow> decision list option" where
  "decisionsOf ob =
     (case ob of
        DecisionsObject ds \<Rightarrow> Some ds
      | LegacyDecision d \<Rightarrow> Some [d]
      | OtherObject \<Rightarrow> None)"

text \<open>
  The chain that picks the reasoning text. The branch on \<^verbatim>\<open>object.reasoning\<close> is left
  out: the schema has no such key.
\<close>

definition decisionLines :: "ai_object \<Rightarrow> string" where
  "decisionLines ob =
     (case ob of
        DecisionsObject ds \<Rightarrow>
          join [CHR 0x0A] (map (\<lambda>d. ''['' @ symbolName (symbol d) @ ''] '' @ chat d) ds)
      | _ \<Rightarrow> [])"

definition fallbackReasoning :: "ai_result \<Rightarrow> ai_object \<Rightarrow> string" where
  "fallbackReasoning r ob =
     (case deepseek_reasoning r of
        Some s2 \<Rightarrow> if s2 \<noteq> [] then s2 else decisionLines ob
      | None \<Rightarrow> decisionLines ob)"

definition extractReasoning :: "ai_result \<Rightarrow> ai_object \<Rightarrow> string" where
  "extractReasoning r ob =
     (case reasoning r of
        Some s1 \<Rightarrow> if s1 \<noteq> [] then s1 else fallbackReasoning r ob
      | None \<Rightarrow> fallbackReasoning r ob)"

datatype run_error =
    AIFailed string
  | AIMissingDecisions
  | AccountUnavailable string
  | MarketCollectionRejected string
  | LedgerWriteFailed string

definition timeoutMessage :: string where
  "timeoutMessage = ''AI call timeout after 120s''"

definition schemaMessage :: string where
  "schemaMessage = ''response did not match schema''"

text \<open>
  The one attempt at the oracle: the race of the call against the 120 s timer, and the
  \<^verbatim>\<open>catch\<close> that rethrows every failure as \<^verbatim>\<open>AI failed\<close>.
\<close>

definition aiCall ::
  "env \<Rightarrow> event list \<Rightarrow> string \<Rightarrow> string \<Rightarrow> (run_error + ai_object \<times> string) \<times> event list" where
  "aiCall e tr tradingPrompt userPrompt =
     (let tr1 = tr @ [OracleCall tradingPrompt userPrompt]
      in case generateObject e tr tradingPrompt userPrompt of
           Timeout \<Rightarrow>
             (Inl (AIFailed timeoutMessage), tr1 @ [Console (ErrorAIFailed timeoutMessage)])
         | Rejected msg \<Rightarrow> (Inl (AIFailed msg), tr1 @ [Console (ErrorAIFailed msg)])
         | Resolved r \<Rightarrow>
             (case parseObject (object r) of
                None \<Rightarrow>
                  (Inl (AIFailed schemaMessage), tr1 @ [Console (ErrorAIFailed schemaMessage)])
              | Some ob \<Rightarrow> (Inr (ob, extractReasoning r ob), tr1)))"

subsection \<open>Ledger write, daily-loss gate and the whole of \<open>run\<close>\<close>

record world =
  w_trace :: "event list"
  ledger :: "chat_record list"

text \<open>\<^verbatim>\<open>prisma.chat.create\<close>: the row and its tradings are created together, or the call throws.\<close>

definition persist :: "env \<Rightarrow> chat_record \<Rightarrow> world \<Rightarrow> (run_error + unit) \<times> world" where
  "persist e r w =
     (case chat_create e (w_trace w) r of
        None \<Rightarrow> (Inr (), \<lparr>w_trace = w_trace w @ [ChatCreate r], ledger = ledger w @ [r]\<rparr>)
      | Some err \<Rightarrow>
          (Inl (LedgerWriteFailed err), \<lparr>w_trace = w_trace w @ [ChatCreate r], ledger = ledger w\<rparr>))"

definition orNoReasoning :: "string \<Rightarrow> string" where
  "orNoReasoning r = (if r \<noteq> [] then r else ''<no reasoning>'')"

definition totalUnrealizedPnl :: "accountInfo \<Rightarrow> num" where
  "totalUnrealizedPnl acct =
     foldl (\<lambda>sum pos. sum + (case js_or (unrealizedPnl pos) (Some 0) of
                                 None \<Rightarrow> 0 | Some x \<Rightarrow> x)) 0 (positions acct)"

definition dailyLossCheck :: "env \<Rightarrow> accountInfo \<Rightarrow> verdict" where
  "dailyLossCheck e acct =
     checkDailyLossLimit e (totalUnrealizedPnl acct) (totalCashValue acct) (getRiskConfig e)"

definition holdOverride :: overrides where
  "holdOverride = no_overrides\<lparr>o_opeartion := Some Hold\<rparr>"

definition blockedRecord :: "env \<Rightarrow> accountInfo \<Rightarrow> string \<Rightarrow> string \<Rightarrow> decision list \<Rightarrow> chat_record" where
  "blockedRecord e acct userPrompt reasoningText decisions =
     \<lparr>c_reasoning = orNoReasoning reasoningText,
      c_chat = BlockedByRiskControl (reason (dailyLossCheck e acct)) decisions,
      c_userPrompt = userPrompt,
      c_tradings = map (\<lambda>d. createTradingData d holdOverride) decisions\<rparr>"

definition initialLoopState :: "accountInfo \<Rightarrow> event list \<Rightarrow> loop_state" where
  "initialLoopState acct tr =
     \<lparr>trace = tr, remainingAvailableCash = availableCash acct,
      allTradingRecords = [], allChatMessages = []\<rparr>"

definition cycleRecord :: "string \<Rightarrow> string \<Rightarrow> loop_state \<Rightarrow> chat_record" where
  "cycleRecord userPrompt reasoningText st =
     \<lparr>c_reasoning = orNoReasoning reasoningText,
      c_chat = (if allChatMessages st \<noteq> [] then Combined (allChatMessages st) else NoChat),
      c_userPrompt = userPrompt,
      c_tradings = allTradingRecords st\<rparr>"

text \<open>From the daily-loss gate to the ledger write.\<close>

definition tradeCycle ::
  "env \<Rightarrow> accountInfo \<Rightarrow> string \<Rightarrow> string \<Rightarrow> decision list \<Rightarrow> world \<Rightarrow> (run_error + unit) \<times> world" where
  "tradeCycle e acct userPrompt reasoningText decisions w =
     (if \<not> allowed (dailyLossCheck e acct)
      then persist e (blockedRecord e acct userPrompt reasoningText decisions)
             (w\<lparr>w_trace := w_trace w @ [Console (ErrorDailyLoss (reason (dailyLossCheck e acct)))]\<rparr>)
      else
        (let st = processDecisions e (initialLoopState acct (w_trace w)) decisions
         in persist e (cycleRecord userPrompt reasoningText st) (w\<lparr>w_trace := trace st\<rparr>)))"

text \<open>The body of the outer \<^verbatim>\<open>try\<close>, in three stages.\<close>

text \<open>Snapshot collection, the account state and the two prompts.\<close>

definition gather ::
  "env \<Rightarrow> num option \<Rightarrow> event list \<Rightarrow> (run_error + accountInfo \<times> string \<times> string) \<times> event list" where
  "gather e initialCapital tr =
     (let (settled, tr1) = fetchAll e tr supportedSymbols
      in case promise_all settled of
           Inl err \<Rightarrow> (Inl (MarketCollectionRejected err), tr1)
         | Inr marketStates \<Rightarrow>
             (case getAccountInformationAndPerformance e tr1 initialCapital of
                Inl err \<Rightarrow> (Inl (AccountUnavailable err), tr1 @ [GetAccount initialCapital])
              | Inr acct \<Rightarrow>
                  (Inr (acct,
                        generateUserPrompt e (validMarketStates marketStates) acct,
                        getTradingPrompt e supportedSymbolEnums),
                   tr1 @ [GetAccount initialCapital])))"

text \<open>
  Everything before the daily-loss gate: the account, the user prompt, the reasoning text
  and the decisions. After the validation of \<open>aiCall\<close> the test \<^verbatim>\<open>!object\<close> cannot
  succeed and is left out.
\<close>

definition prepare ::
  "env \<Rightarrow> num option \<Rightarrow> event list \<Rightarrow>
     (run_error + accountInfo \<times> string \<times> string \<times> decision list) \<times> event list" where
  "prepare e initialCapital tr =
     (case gather e initialCapital tr of
        (Inl err, tr2) \<Rightarrow> (Inl err, tr2)
      | (Inr (acct, userPrompt, tradingPrompt), tr2) \<Rightarrow>
          (case aiCall e tr2 tradingPrompt userPrompt of
             (Inl err, tr3) \<Rightarrow> (Inl err, tr3)
           | (Inr (ob, reasoningText), tr3) \<Rightarrow>
               (case decisionsOf ob of
                  None \<Rightarrow> (Inl AIMissingDecisions, tr3)
                | Some decisions \<Rightarrow> (Inr (acct, userPrompt, reasoningText, decisions), tr3))))"

definition runBody :: "env \<Rightarrow> num option \<Rightarrow> world \<Rightarrow> (run_error + unit) \<times> world" where
  "runBody e initialCapital w =
     (case prepare e initialCapital (w_trace w) of
        (Inl err, tr) \<Rightarrow> (Inl err, w\<lparr>w_trace := tr\<rparr>)
      | (Inr (acct, userPrompt, reasoningText, decisions), tr) \<Rightarrow>
          tradeCycle e acct userPrompt reasoningText decisions (w\<lparr>w_trace := tr\<rparr>))"

text \<open>The outer \<^verbatim>\<open>catch\<close> logs the error and throws it again.\<close>

definition run :: "env \<Rightarrow> num option \<Rightarrow> world \<Rightarrow> (run_error + unit) \<times> world" where
  "run e initialCapital w =
     (case runBody e initialCapital w of
        (Inl err, w1) \<Rightarrow> (Inl err, w1\<lparr>w_trace := w_trace w1 @ [Console ErrorTrading]\<rparr>)
      | (Inr u, w1) \<Rightarrow> (Inr u, w1))"

section \<open>Scenarios\<close>

text \<open>Concrete decisions and collaborators on which the theorems below are instantiated.\<close>

definition samplePrediction :: prediction where
  "samplePrediction =
     \<lparr>short_term_trend = bullish, confidence = medium,
      levels = \<lparr>support = 90, resistance = 110\<rparr>, analysis = ''higher lows''\<rparr>"

definition holdDecision :: "Symbol \<Rightarrow> decision" where
  "holdDecision sy =
     \<lparr>opeartion = Hold, symbol = sy, buy = None, sell = None, adjustProfit = None,
      prediction = Some samplePrediction, chat = ''wait'',
      top_pricing = None, top_amount = None, top_leverage = None\<rparr>"

definition buyPayload :: "num \<Rightarrow> num \<Rightarrow> num \<Rightarrow> buy_fields" where
  "buyPayload p a l =
     \<lparr>pricing = Some p, amount = Some a, leverage = Some l,
      stopLossPercent = None, takeProfitPercent = None\<rparr>"

definition buyDecision :: "Symbol \<Rightarrow> num \<Rightarrow> num \<Rightarrow> num \<Rightarrow> decision" where
  "buyDecision sy p a l =
     (holdDecision sy)\<lparr>opeartion := Buy, buy := Some (buyPayload p a l), chat := ''enter''\<rparr>"

definition sellDecision :: "Symbol \<Rightarrow> num \<Rightarrow> decision" where
  "sellDecision sy pct =
     (holdDecision sy)\<lparr>opeartion := Sell, sell := Some \<lparr>percentage = Some pct\<rparr>, chat := ''exit''\<rparr>"

definition accountWith :: "num \<Rightarrow> accountInfo" where
  "accountWith cash = \<lparr>positions = [], totalCashValue = 1000, availableCash = cash\<rparr>"

definition filled :: "buy_request \<Rightarrow> orderResult" where
  "filled req =
     \<lparr>success = True, orderId = Some ''42'', executedPrice = Some 101,
      executedAmount = Some (b_amount req), error = None\<rparr>"

definition failedWith :: "string \<Rightarrow> orderResult" where
  "failedWith msg =
     \<lparr>success = False, orderId = None, executedPrice = None,
      executedAmount = None, error = Some msg\<rparr>"

definition allow :: verdict where
  "allow = \<lparr>allowed = True, reason = None\<rparr>"

definition deny :: "string \<Rightarrow> verdict" where
  "deny msg = \<lparr>allowed = False, reason = Some msg\<rparr>"

definition sampleResult :: "decision list \<Rightarrow> ai_result" where
  "sampleResult ds =
     \<lparr>object = Some (DecisionsObject ds), reasoning = Some ''because'',
      deepseek_reasoning = None\<rparr>"

text \<open>
  An account with the given available cash, an oracle that answers with the given
  decisions, risk checks that allow, a venue that fills every Buy and has no position to
  sell, and a ledger that accepts the write.
\<close>

definition sampleEnv :: "num \<Rightarrow> decision list \<Rightarrow> env" where
  "sampleEnv cash ds =
     \<lparr>getRiskConfig = \<lparr>tradingMode = Virtual\<rparr>,
      getCurrentMarketState = (\<lambda>h s. Inr ''snapshot''),
      getAccountInformationAndPerformance = (\<lambda>h c. Inr (accountWith cash)),
      generateUserPrompt = (\<lambda>ms acct. concat (map fst ms)),
      getTradingPrompt = (\<lambda>syms. ''system''),
      generateObject = (\<lambda>h sys p. Resolved (sampleResult ds)),
      checkDailyLossLimit = (\<lambda>pnl cap cfg. allow),
      checkBuyRisk = (\<lambda>a p l bal cfg. allow),
      buy_order = (\<lambda>h req. filled req),
      sell_order = (\<lambda>h req. failedWith ''No open position''),
      fetchPositions = (\<lambda>h. Inr []),
      setStopLossTakeProfit = (\<lambda>h req. \<lparr>sl_success = True, sl_error = None\<rparr>),
      chat_create = (\<lambda>h r. None)\<rparr>"

definition emptyWorld :: world where
  "emptyWorld = \<lparr>w_trace = [], ledger = []\<rparr>"

definition twoBuys :: "decision list" where
  "twoBuys = [buyDecision BTC 100 30 5, buyDecision ETH 100 30 5]"

definition oneBuy :: decision where
  "oneBuy = buyDecision BTC 100 30 5"

definition oneSell :: decision where
  "oneSell = sellDecision BTC 50"

text \<open>A Buy that comes without its payload.\<close>

definition missingBuy :: decision where
  "missingBuy = (holdDecision BTC)\<lparr>opeartion := Buy, chat := ''enter''\<rparr>"

text \<open>The per-trade risk check denies every Buy.\<close>

definition denyEnv :: env where
  "denyEnv = (sampleEnv 1000 [oneBuy])
     \<lparr>checkBuyRisk := (\<lambda>a p l bal cfg. deny ''position size exceeds limit'')\<rparr>"

text \<open>The venue rejects every Buy with the given message.\<close>

definition failEnv :: "string \<Rightarrow> env" where
  "failEnv msg = (sampleEnv 1000 [oneBuy])\<lparr>buy_order := (\<lambda>h req. failedWith msg)\<rparr>"

text \<open>The venue rejects every Sell with the given message.\<close>

definition sellEnv :: "string \<Rightarrow> env" where
  "sellEnv msg = (sampleEnv 1000 [oneSell, holdDecision ETH])
     \<lparr>sell_order := (\<lambda>h req. failedWith msg)\<rparr>"

definition startState :: loop_state where
  "startState = initialLoopState (accountWith 1000) []"

text \<open>The prompt \<open>sampleEnv\<close> builds when all five snapshots arrive.\<close>

definition fullPrompt :: string where
  "fullPrompt = ''BTC/USDTETH/USDTSOL/USDTBNB/USDTDOGE/USDT''"

text \<open>
  The scenario of the specification for the daily-loss gate: an unrealized loss of 150 on
  a capital of 1000, and a limit of 10 percent.
\<close>

definition lossAccount :: accountInfo where
  "lossAccount =
     \<lparr>positions = [\<lparr>unrealizedPnl = Some (- 150)\<rparr>], totalCashValue = 1000,
      availableCash = 1000\<rparr>"

definition lossLimit :: "num \<Rightarrow> num \<Rightarrow> riskConfig \<Rightarrow> verdict" where
  "lossLimit pnl cap cfg = (if pnl / cap < - (1 / 10) then deny ''daily loss limit reached'' else allow)"

definition lossEnv :: "decision list \<Rightarrow> env" where
  "lossEnv ds = (sampleEnv 1000 ds)
     \<lparr>getAccountInformationAndPerformance := (\<lambda>h c. Inr lossAccount),
      checkDailyLossLimit := lossLimit\<rparr>"

text \<open>The oracle call loses the race against the timer.\<close>

definition timeoutEnv :: env where
  "timeoutEnv = (sampleEnv 1000 [oneBuy])\<lparr>generateObject := (\<lambda>h sys p. Timeout)\<rparr>"

text \<open>The oracle answers with a leverage of 50, which the schema rejects.\<close>

definition invalidEnv :: env where
  "invalidEnv = sampleEnv 1000 [buyDecision BTC 100 30 50]"

text \<open>Two of the five snapshot fetches fail; then all of them.\<close>

definition partialEnv :: env where
  "partialEnv = (sampleEnv 1000 [holdDecision BTC])
     \<lparr>getCurrentMarketState :=
        (\<lambda>h s. if s = ''ETH/USDT'' \<or> s = ''DOGE/USDT'' then Inl ''no data'' else Inr ''snapshot'')\<rparr>"

definition noMarketEnv :: env where
  "noMarketEnv = (sampleEnv 1000 [holdDecision BTC])
     \<lparr>getCurrentMarketState := (\<lambda>h s. Inl ''no data'')\<rparr>"

text \<open>A Hold whose Buy payload is filled with zeros.\<close>

definition holdWithZeros :: decision where
  "holdWithZeros = (holdDecision BTC)\<lparr>buy := Some (buyPayload 0 0 1)\<rparr>"

section \<open>Observing a cycle\<close>


fun is_GatewayCall :: "event \<Rightarrow> bool" where
  "is_GatewayCall (BuyCall req) = True"
| "is_GatewayCall (SellCall req) = True"
| "is_GatewayCall (SetSLTPCall req) = True"
| "is_GatewayCall ev = False"

fun is_ChatCreate :: "event \<Rightarrow> bool" where
  "is_ChatCreate (ChatCreate r) = True"
| "is_ChatCreate ev = False"

fun is_OracleCall :: "event \<Rightarrow> bool" where
  "is_OracleCall (OracleCall sys p) = True"
| "is_OracleCall ev = False"


text \<open>The events only the per-decision loop produces.\<close>

fun loopEvent :: "event \<Rightarrow> bool" where
  "loopEvent (BuyCall req) = True"
| "loopEvent (SellCall req) = True"
| "loopEvent FetchPositions = True"
| "loopEvent (SetSLTPCall req) = True"
| "loopEvent (LogTrade entry) = True"
| "loopEvent (Console line) = True"
| "loopEvent ev = False"

definition newEvents :: "event list \<Rightarrow> event list \<Rightarrow> event list" where
  "newEvents old new = drop (length old) new"

definition stepEvents :: "env \<Rightarrow> loop_state \<Rightarrow> decision \<Rightarrow> event list" where
  "stepEvents e st d = newEvents (trace st) (trace (processDecision e st d))"





definition buyFieldsMissing :: "decision \<Rightarrow> bool" where
  "buyFieldsMissing d = (buy_pricing d = None \<or> buy_amount d = None \<or> buy_leverage d = None)"

text \<open>Both gates let the Buy through.\<close>

definition approved :: "env \<Rightarrow> loop_state \<Rightarrow> num \<Rightarrow> num \<Rightarrow> num \<Rightarrow> bool" where
  "approved e st p a l =
     (allowed (checkBuyRisk e a p l (remainingAvailableCash st) (getRiskConfig e)) \<and>
      \<not> requiredMargin a p l > remainingAvailableCash st)"

text \<open>What the venue answers to the Buy placed from state \<open>st\<close>.\<close>

definition buyResult :: "env \<Rightarrow> loop_state \<Rightarrow> decision \<Rightarrow> buy_fields \<Rightarrow> num \<Rightarrow> num \<Rightarrow> orderResult" where
  "buyResult e st d b a l = buy_order e (trace st) (buyRequest d b a l)"

definition lookupEvents :: "env \<Rightarrow> loop_state \<Rightarrow> event list" where
  "lookupEvents e st =
     (case fetchPositions e (trace st) of
        Inl err \<Rightarrow> [FetchPositions, Console (WarnFetchPositionFailed err)]
      | Inr ps \<Rightarrow> [FetchPositions])"

definition sellRequest :: "decision \<Rightarrow> num \<Rightarrow> sell_request" where
  "sellRequest d pct = \<lparr>s_symbol = tradingSymbol d, s_percentage = pct\<rparr>"

text \<open>What the venue answers to the Sell placed from state \<open>st\<close>.\<close>

definition sellResult :: "env \<Rightarrow> loop_state \<Rightarrow> decision \<Rightarrow> num \<Rightarrow> orderResult" where
  "sellResult e st d pct = sell_order e (trace st @ lookupEvents e st) (sellRequest d pct)"

definition sellFailureEvents :: "orderResult \<Rightarrow> event list" where
  "sellFailureEvents r =
     (if success r then []
      else Console (ErrorSellFailed (error r)) #
        (case error r of
           None \<Rightarrow> []
         | Some msg \<Rightarrow>
             if str_includes msg ''No open position'' then [Console WarnPositionClosed] else []))"

definition adjustEvents :: "env \<Rightarrow> loop_state \<Rightarrow> decision \<Rightarrow> event list" where
  "adjustEvents e st d =
     (let req = \<lparr>a_symbol = tradingSymbol d, a_stopLoss = adjust_stopLoss d,
                 a_takeProfit = adjust_takeProfit d\<rparr>
      in if \<not> shouldAdjustProfit d then []
         else SetSLTPCall req #
           (if sl_success (setStopLossTakeProfit e (trace st) req) then []
            else [Console (ErrorSetSLTPFailed (sl_error (setStopLossTakeProfit e (trace st) req)))]))"

text \<open>\<^verbatim>\<open>object.sell?.percentage\<close>.\<close>

definition sell_percentage :: "decision \<Rightarrow> num option" where
  "sell_percentage d = (case sell d of None \<Rightarrow> None | Some s \<Rightarrow> percentage s)"

text \<open>The decision lacks a field its operation requires.\<close>

definition requiredFieldMissing :: "decision \<Rightarrow> bool" where
  "requiredFieldMissing d =
     (case opeartion d of
        Buy \<Rightarrow> buyFieldsMissing d
      | Sell \<Rightarrow> sell_percentage d = None
      | Hold \<Rightarrow> False)"

definition missingFieldWarning :: "decision \<Rightarrow> console_line" where
  "missingFieldWarning d =
     (if opeartion d = Buy then WarnBuyMissingFields else WarnSellMissingPercentage)"

text \<open>The trade record a step pushes, and the chat messages it adds.\<close>

definition stepRecord :: "env \<Rightarrow> loop_state \<Rightarrow> decision \<Rightarrow> trading" where
  "stepRecord e st d = last (allTradingRecords (processDecision e st d))"

definition stepChat :: "env \<Rightarrow> loop_state \<Rightarrow> decision \<Rightarrow> chat_message list" where
  "stepChat e st d =
     drop (length (allChatMessages st)) (allChatMessages (processDecision e st d))"

text \<open>The message every decision with a non-empty \<^verbatim>\<open>chat\<close> contributes.\<close>

definition ownChat :: "decision \<Rightarrow> chat_message list" where
  "ownChat d = (if chat d \<noteq> [] then [DecisionChat (symbol d) (chat d)] else [])"

text \<open>\<^verbatim>\<open>positionInfo?.leverage\<close> of the position looked up before a Sell.\<close>

definition positionLeverage :: "env \<Rightarrow> loop_state \<Rightarrow> decision \<Rightarrow> num option" where
  "positionLeverage e st d =
     (case fst (lookupPosition e st d) of None \<Rightarrow> None | Some pos \<Rightarrow> p_leverage pos)"

text \<open>The events the stages before the oracle call produce.\<close>

fun gatherEvent :: "event \<Rightarrow> bool" where
  "gatherEvent (FetchMarketState s) = True"
| "gatherEvent (GetAccount c) = True"
| "gatherEvent (Console line) = True"
| "gatherEvent ev = False"

fun fetched :: "string + marketState \<Rightarrow> bool" where
  "fetched (Inr state) = True"
| "fetched (Inl err) = False"

text \<open>
  The successful subset, written from the words of the specification: the instruments
  whose fetch succeeds, each with its snapshot, in the configured order.
\<close>

fun snapshots :: "env \<Rightarrow> event list \<Rightarrow> string list \<Rightarrow> (string \<times> marketState) list" where
  "snapshots e tr [] = []"
| "snapshots e tr (s # ss) =
     (case getCurrentMarketState e tr s of
        Inr state \<Rightarrow> (s, state) # snapshots e (tr @ [FetchMarketState s]) ss
      | Inl err \<Rightarrow> snapshots e (tr @ [FetchMarketState s, Console (WarnFetchFailed s)]) ss)"

text \<open>The events one call of \<open>run\<close> adds to the trace.\<close>

definition cycleEvents :: "env \<Rightarrow> num option \<Rightarrow> world \<Rightarrow> event list" where
  "cycleEvents e ic w = newEvents (w_trace w) (w_trace (snd (run e ic w)))"

text \<open>The oracle call ran into the timeout, or its output does not match the schema.\<close>

definition oracleTimedOutOrInvalid :: "env \<Rightarrow> event list \<Rightarrow> string \<Rightarrow> string \<Rightarrow> bool" where
  "oracleTimedOutOrInvalid e tr tp up =
     (case generateObject e tr tp up of
        Timeout \<Rightarrow> True
      | Rejected msg \<Rightarrow> False
      | Resolved r \<Rightarrow> parseObject (object r) = None)"

definition oracleFailureMessage :: "env \<Rightarrow> event list \<Rightarrow> string \<Rightarrow> string \<Rightarrow> string" where
  "oracleFailureMessage e tr tp up =
     (case generateObject e tr tp up of
        Timeout \<Rightarrow> timeoutMessage
      | Rejected msg \<Rightarrow> msg
      | Resolved r \<Rightarrow> schemaMessage)"

text \<open>\<^verbatim>\<open>v || null\<close>: a zero becomes \<^verbatim>\<open>null\<close>.\<close>

definition nonZero :: "num option \<Rightarrow> num option" where
  "nonZero v = js_or v None"

text \<open>The decision with only its operation replaced by Hold (and zeros dropped).\<close>

definition blockedTrading :: "decision \<Rightarrow> trading" where
  "blockedTrading d =
     \<lparr>t_symbol = symbol d, t_opeartion = Hold,
      t_pricing = nonZero (buy_pricing d), t_amount = nonZero (buy_amount d),
      t_leverage = buy_leverage d, t_prediction = prediction d,
      t_stopLoss = None, t_takeProfit = None\<rparr>"

definition dailyLossLine :: "env \<Rightarrow> accountInfo \<Rightarrow> event" where
  "dailyLossLine e acct = Console (ErrorDailyLoss (reason (dailyLossCheck e acct)))"

section \<open>Frame lemmas of the loop\<close>

lemma newEvents_append [simp]: "newEvents tr (tr @ evs) = evs"
  by (simp add: newEvents_def)

lemma newEvents_self [simp]: "newEvents tr tr = []"
  by (simp add: newEvents_def)

lemmas upd_defs = emit_def pushRecord_def pushChat_def

lemma createTradingData_keeps [simp]:
  "t_symbol (createTradingData d ov) = symbol d"
  "t_prediction (createTradingData d ov) = prediction d"
  by (simp_all add: createTradingData_def spread_def tradingBase_def split: option.splits)

lemma noteChat_frame [simp]:
  "trace (noteChat st d) = trace st"
  "remainingAvailableCash (noteChat st d) = remainingAvailableCash st"
  "allTradingRecords (noteChat st d) = allTradingRecords st"
  by (simp_all add: noteChat_def upd_defs)

lemma buyMissingFields_frame [simp]:
  "trace (buyMissingFields st d) = trace st @ [Console WarnBuyMissingFields]"
  "remainingAvailableCash (buyMissingFields st d) = remainingAvailableCash st"
  "allChatMessages (buyMissingFields st d) = allChatMessages st"
  by (simp_all add: buyMissingFields_def upd_defs)

lemma buyRiskDenied_frame [simp]:
  "trace (buyRiskDenied st d v p a l) = trace st @ [Console (ErrorRiskControl (reason v))]"
  "remainingAvailableCash (buyRiskDenied st d v p a l) = remainingAvailableCash st"
  "allChatMessages (buyRiskDenied st d v p a l) =
     allChatMessages st @ [BlockedRisk (symbol d) (reason v)]"
  by (simp_all add: buyRiskDenied_def upd_defs)

lemma buyInsufficient_frame [simp]:
  "trace (buyInsufficient st d m) =
     trace st @ [Console (WarnInsufficientMargin m (remainingAvailableCash st))]"
  "remainingAvailableCash (buyInsufficient st d m) = remainingAvailableCash st"
  "allChatMessages (buyInsufficient st d m) =
     allChatMessages st @ [BlockedInsufficient (symbol d) m (remainingAvailableCash st)]"
  by (simp_all add: buyInsufficient_def upd_defs)

lemma executeBuy_frame:
  "trace (executeBuy e st d b p a l) =
     trace st @ BuyCall (buyRequest d b a l) #
       (if success (buyResult e st d b a l) then []
        else [Console (ErrorBuyFailed (error (buyResult e st d b a l)))]) @
       [LogTrade (buyLogEntry e d (buyResult e st d b a l) a l)]"
  "remainingAvailableCash (executeBuy e st d b p a l) =
     (if success (buyResult e st d b a l)
      then remainingAvailableCash st - requiredMargin a p l
      else remainingAvailableCash st)"
  "allChatMessages (executeBuy e st d b p a l) = allChatMessages st"
  by (simp_all add: executeBuy_def buyResult_def upd_defs Let_def)

lemma sellMissing_frame [simp]:
  "trace (sellMissingPercentage st d) = trace st @ [Console WarnSellMissingPercentage]"
  "remainingAvailableCash (sellMissingPercentage st d) = remainingAvailableCash st"
  "allChatMessages (sellMissingPercentage st d) = allChatMessages st"
  by (simp_all add: sellMissingPercentage_def upd_defs)

lemma lookupPosition_frame:
  "trace (snd (lookupPosition e st d)) = trace st @ lookupEvents e st"
  "remainingAvailableCash (snd (lookupPosition e st d)) = remainingAvailableCash st"
  "allChatMessages (snd (lookupPosition e st d)) = allChatMessages st"
  "allTradingRecords (snd (lookupPosition e st d)) = allTradingRecords st"
  by (simp_all add: lookupPosition_def lookupEvents_def upd_defs split: sum.splits)

lemma sellFailureLines_frame:
  "trace (sellFailureLines r st) =
     trace st @ Console (ErrorSellFailed (error r)) #
       (case error r of None \<Rightarrow> []
        | Some msg \<Rightarrow>
            if str_includes msg ''No open position'' then [Console WarnPositionClosed] else [])"
  "remainingAvailableCash (sellFailureLines r st) = remainingAvailableCash st"
  "allChatMessages (sellFailureLines r st) = allChatMessages st"
  "allTradingRecords (sellFailureLines r st) = allTradingRecords st"
  by (simp_all add: sellFailureLines_def upd_defs Let_def split: option.splits)

lemma executeSell_frame:
  "trace (executeSell e st d pct) =
     trace st @ lookupEvents e st @ SellCall (sellRequest d pct) #
       sellFailureEvents (sellResult e st d pct) @
       [LogTrade (sellLogEntry e d (sellResult e st d pct))]"
  "remainingAvailableCash (executeSell e st d pct) = remainingAvailableCash st"
  "allChatMessages (executeSell e st d pct) = allChatMessages st"
  by (simp_all add: executeSell_def sellResult_def sellRequest_def sellFailureEvents_def
        Let_def upd_defs split_beta lookupPosition_frame sellFailureLines_frame)

lemma processHold_frame:
  "trace (processHold e st d) = trace st @ adjustEvents e st d"
  "remainingAvailableCash (processHold e st d) = remainingAvailableCash st"
  "allChatMessages (processHold e st d) = allChatMessages st"
  by (simp_all add: processHold_def adjustOrders_def adjustEvents_def Let_def upd_defs)

subsection \<open>The branches of a Buy\<close>

lemma processBuy_missing:
  "buyFieldsMissing d \<Longrightarrow> processBuy e st d = buyMissingFields st d"
  by (auto simp: buyFieldsMissing_def processBuy_def buy_pricing_def buy_amount_def
        buy_leverage_def split: option.splits)

lemma processBuy_present:
  "buy d = Some b \<Longrightarrow> pricing b = Some p \<Longrightarrow> amount b = Some a \<Longrightarrow> leverage b = Some l \<Longrightarrow>
     processBuy e st d = checkedBuy e st d b p a l"
  by (simp add: processBuy_def)


lemma checkedBuy_approved:
  "approved e st p a l \<Longrightarrow> checkedBuy e st d b p a l = executeBuy e st d b p a l"
  by (simp add: approved_def checkedBuy_def Let_def)

lemma checkedBuy_trace:
  "trace (checkedBuy e st d b p a l) =
     trace st @
     (if \<not> allowed (checkBuyRisk e a p l (remainingAvailableCash st) (getRiskConfig e))
      then [Console (ErrorRiskControl
               (reason (checkBuyRisk e a p l (remainingAvailableCash st) (getRiskConfig e))))]
      else if requiredMargin a p l > remainingAvailableCash st
      then [Console (WarnInsufficientMargin (requiredMargin a p l) (remainingAvailableCash st))]
      else BuyCall (buyRequest d b a l) #
        (if success (buyResult e st d b a l) then []
         else [Console (ErrorBuyFailed (error (buyResult e st d b a l)))]) @
        [LogTrade (buyLogEntry e d (buyResult e st d b a l) a l)])"
  by (simp add: checkedBuy_def Let_def executeBuy_frame)




lemma buyResult_noteChat [simp]: "buyResult e (noteChat st d') d b a l = buyResult e st d b a l"
  by (simp add: buyResult_def)

lemma approved_noteChat [simp]: "approved e (noteChat st d) p a l = approved e st p a l"
  by (simp add: approved_def)







subsection \<open>The running balance\<close>







lemma noteChat_chat: "allChatMessages (noteChat st d) = allChatMessages st @ ownChat d"
  by (simp add: noteChat_def ownChat_def upd_defs)

lemma processSell_missing:
  "sell_percentage d = None \<Longrightarrow> processSell e st d = sellMissingPercentage st d"
  by (simp add: processSell_def sell_percentage_def split: option.splits)

lemma processSell_present:
  "sell d = Some s \<Longrightarrow> percentage s = Some pct \<Longrightarrow> processSell e st d = executeSell e st d pct"
  by (simp add: processSell_def)

subsection \<open>Records and events of a step and of the loop\<close>

lemma leaf_records:
  "\<exists>ov. allTradingRecords (buyMissingFields st d) = allTradingRecords st @ [createTradingData d ov]"
  "\<exists>ov. allTradingRecords (buyRiskDenied st d v p a l) = allTradingRecords st @ [createTradingData d ov]"
  "\<exists>ov. allTradingRecords (buyInsufficient st d m) = allTradingRecords st @ [createTradingData d ov]"
  "\<exists>ov. allTradingRecords (executeBuy e st d b p a l) = allTradingRecords st @ [createTradingData d ov]"
  "\<exists>ov. allTradingRecords (sellMissingPercentage st d) = allTradingRecords st @ [createTradingData d ov]"
  "\<exists>ov. allTradingRecords (executeSell e st d pct) = allTradingRecords st @ [createTradingData d ov]"
  "\<exists>ov. allTradingRecords (processHold e st d) = allTradingRecords st @ [createTradingData d ov]"
  by (simp_all add: buyMissingFields_def buyRiskDenied_def buyInsufficient_def executeBuy_def
        sellMissingPercentage_def executeSell_def processHold_def adjustOrders_def Let_def upd_defs
        split_beta lookupPosition_frame sellFailureLines_frame) blast+

lemma checkedBuy_records:
  "\<exists>ov. allTradingRecords (checkedBuy e st d b p a l) = allTradingRecords st @ [createTradingData d ov]"
  by (simp add: checkedBuy_def Let_def leaf_records)

lemma processBuy_records:
  "\<exists>ov. allTradingRecords (processBuy e st d) = allTradingRecords st @ [createTradingData d ov]"
  by (simp add: processBuy_def leaf_records checkedBuy_records split: option.splits)

lemma processSell_records:
  "\<exists>ov. allTradingRecords (processSell e st d) = allTradingRecords st @ [createTradingData d ov]"
  by (simp add: processSell_def leaf_records split: option.splits)

lemma step_records:
  "\<exists>ov. allTradingRecords (processDecision e st d) = allTradingRecords st @ [createTradingData d ov]"
proof (cases "opeartion d")
  case Buy
  then show ?thesis using processBuy_records [of e "noteChat st d" d]
    by (simp add: processDecision_def)
next
  case Sell
  then show ?thesis using processSell_records [of e "noteChat st d" d]
    by (simp add: processDecision_def)
next
  case Hold
  then show ?thesis using leaf_records(7) [of e "noteChat st d" d]
    by (simp add: processDecision_def)
qed

lemma loop_records:
  "\<exists>rs. allTradingRecords (processDecisions e st ds) = allTradingRecords st @ rs \<and>
        map t_symbol rs = map symbol ds \<and> map t_prediction rs = map prediction ds"
proof (induction ds arbitrary: st)
  case Nil
  show ?case by simp
next
  case (Cons d ds)
  from step_records [of e st d] obtain ov where
    s: "allTradingRecords (processDecision e st d) = allTradingRecords st @ [createTradingData d ov]"
    by blast
  from Cons.IH [of "processDecision e st d"] obtain rs where
    r: "allTradingRecords (processDecisions e (processDecision e st d) ds) =
          allTradingRecords (processDecision e st d) @ rs"
       "map t_symbol rs = map symbol ds" "map t_prediction rs = map prediction ds"
    by blast
  have "allTradingRecords (processDecisions e st (d # ds)) =
          allTradingRecords st @ (createTradingData d ov # rs)"
    using s r(1) by simp
  moreover have "map t_symbol (createTradingData d ov # rs) = map symbol (d # ds)"
    using r(2) by simp
  moreover have "map t_prediction (createTradingData d ov # rs) = map prediction (d # ds)"
    using r(3) by simp
  ultimately show ?case by blast
qed

lemma processBuy_events:
  "\<exists>evs. trace (processBuy e st d) = trace st @ evs \<and> list_all loopEvent evs"
  by (simp add: processBuy_def checkedBuy_trace split: option.splits)

lemma processSell_events:
  "\<exists>evs. trace (processSell e st d) = trace st @ evs \<and> list_all loopEvent evs"
  by (simp add: processSell_def executeSell_frame lookupEvents_def sellFailureEvents_def
      split: option.splits sum.splits)

lemma processHold_events:
  "\<exists>evs. trace (processHold e st d) = trace st @ evs \<and> list_all loopEvent evs"
  by (simp add: processHold_frame adjustEvents_def Let_def)

lemma step_events:
  "\<exists>evs. trace (processDecision e st d) = trace st @ evs \<and> list_all loopEvent evs"
proof (cases "opeartion d")
  case Buy
  then show ?thesis using processBuy_events [of e "noteChat st d" d]
    by (simp add: processDecision_def)
next
  case Sell
  then show ?thesis using processSell_events [of e "noteChat st d" d]
    by (simp add: processDecision_def)
next
  case Hold
  then show ?thesis using processHold_events [of e "noteChat st d" d]
    by (simp add: processDecision_def)
qed

lemma loop_events:
  "\<exists>evs. trace (processDecisions e st ds) = trace st @ evs \<and> list_all loopEvent evs"
proof (induction ds arbitrary: st)
  case Nil
  show ?case by simp
next
  case (Cons d ds)
  from step_events [of e st d] obtain evs1 where
    s: "trace (processDecision e st d) = trace st @ evs1" "list_all loopEvent evs1" by blast
  from Cons.IH [of "processDecision e st d"] obtain evs2 where
    r: "trace (processDecisions e (processDecision e st d) ds) =
          trace (processDecision e st d) @ evs2" "list_all loopEvent evs2" by blast
  have "trace (processDecisions e st (d # ds)) = trace st @ (evs1 @ evs2)"
    using s(1) r(1) by simp
  moreover have "list_all loopEvent (evs1 @ evs2)" using s(2) r(2) by simp
  ultimately show ?case by blast
qed

lemma step_records_last:
  "allTradingRecords (processDecision e st d) = allTradingRecords st @ [stepRecord e st d]"
  using step_records [of e st d] by (auto simp: stepRecord_def)

lemma step_events_eq:
  "trace (processDecision e st d) = trace st @ stepEvents e st d"
  using step_events [of e st d] by (auto simp: stepEvents_def)

text \<open>The rest of the batch is processed after any step: its records follow.\<close>

lemma loop_continues:
  "\<exists>rs. allTradingRecords (processDecisions e st (d # ds)) =
          allTradingRecords st @ stepRecord e st d # rs \<and>
        map t_symbol rs = map symbol ds"
proof -
  from loop_records [of e "processDecision e st d" ds] obtain rs where
    "allTradingRecords (processDecisions e (processDecision e st d) ds) =
       allTradingRecords (processDecision e st d) @ rs" "map t_symbol rs = map symbol ds"
    by blast
  then show ?thesis by (simp add: step_records_last)
qed

lemma sell_noteChat [simp]:
  "sellResult e (noteChat st d') d pct = sellResult e st d pct"
  "lookupEvents e (noteChat st d') = lookupEvents e st"
  "positionLeverage e (noteChat st d') d = positionLeverage e st d"
  by (simp_all add: sellResult_def lookupEvents_def positionLeverage_def lookupPosition_def
      split: sum.splits)

lemma executeSell_record:
  "allTradingRecords (executeSell e st d pct) = allTradingRecords st @
     [createTradingData d
        \<lparr>o_opeartion = None,
         o_pricing = Some (executedPrice (sellResult e st d pct)),
         o_amount = Some (js_or (executedAmount (sellResult e st d pct)) (Some 0)),
         o_leverage = Some (js_or (positionLeverage e st d) None),
         o_stopLoss = None, o_takeProfit = None\<rparr>]"
  by (simp add: executeSell_def sellResult_def sellRequest_def positionLeverage_def
        Let_def upd_defs split_beta lookupPosition_frame sellFailureLines_frame)

lemma executeBuy_record:
  "allTradingRecords (executeBuy e st d b p a l) = allTradingRecords st @
     [createTradingData d
        \<lparr>o_opeartion = None,
         o_pricing = Some (js_or (executedPrice (buyResult e st d b a l)) (Some p)),
         o_amount = Some (js_or (executedAmount (buyResult e st d b a l)) (Some a)),
         o_leverage = Some (Some l),
         o_stopLoss = None, o_takeProfit = None\<rparr>]"
  by (simp add: executeBuy_def buyResult_def Let_def upd_defs)

lemma createTradingData_explicit:
  "createTradingData d
     \<lparr>o_opeartion = None, o_pricing = Some vp, o_amount = Some va, o_leverage = Some vl,
      o_stopLoss = None, o_takeProfit = None\<rparr> =
   \<lparr>t_symbol = symbol d, t_opeartion = opeartion d, t_pricing = vp, t_amount = va,
    t_leverage = vl, t_prediction = prediction d, t_stopLoss = None, t_takeProfit = None\<rparr>"
  by (simp add: createTradingData_def spread_def tradingBase_def split: option.splits)

subsection \<open>A decision that lacks a required field\<close>

lemma missing_step:
  assumes "requiredFieldMissing d"
  shows "t_opeartion (stepRecord e st d) = Hold"
    and "stepEvents e st d = [Console (missingFieldWarning d)]"
    and "stepChat e st d = ownChat d"
    and "remainingAvailableCash (processDecision e st d) = remainingAvailableCash st"
proof -
  show "t_opeartion (stepRecord e st d) = Hold"
  proof (cases "opeartion d")
    case Buy
    with assms have m: "buyFieldsMissing d" by (simp add: requiredFieldMissing_def)
    show ?thesis using Buy
      by (simp add: stepRecord_def processDecision_def processBuy_missing [OF m]
            buyMissingFields_def pushRecord_def createTradingData_def spread_def)
  next
    case Sell
    with assms have m: "sell_percentage d = None" by (simp add: requiredFieldMissing_def)
    show ?thesis using Sell
      by (simp add: stepRecord_def processDecision_def processSell_missing [OF m]
            sellMissingPercentage_def pushRecord_def createTradingData_def spread_def
            no_overrides_def)
  next
    case Hold
    with assms show ?thesis by (simp add: requiredFieldMissing_def)
  qed
  show "stepEvents e st d = [Console (missingFieldWarning d)]"
    using assms
    by (cases "opeartion d")
      (simp_all add: requiredFieldMissing_def stepEvents_def processDecision_def
         processBuy_missing processSell_missing missingFieldWarning_def)
  show "stepChat e st d = ownChat d"
    using assms
    by (cases "opeartion d")
      (simp_all add: requiredFieldMissing_def stepChat_def processDecision_def
         processBuy_missing processSell_missing noteChat_chat)
  show "remainingAvailableCash (processDecision e st d) = remainingAvailableCash st"
    using assms
    by (cases "opeartion d")
      (simp_all add: requiredFieldMissing_def processDecision_def
         processBuy_missing processSell_missing)
qed

subsection \<open>Facts about the scenarios\<close>

lemma oneBuy_fields:
  "opeartion oneBuy = Buy" "buy oneBuy = Some (buyPayload 100 30 5)"
  "pricing (buyPayload 100 30 5) = Some 100" "amount (buyPayload 100 30 5) = Some 30"
  "leverage (buyPayload 100 30 5) = Some 5" "buySchema (buyPayload 100 30 5)"
  by (simp_all add: oneBuy_def buyDecision_def holdDecision_def buyPayload_def buySchema_def)

lemma oneSell_fields:
  "opeartion oneSell = Sell" "sell oneSell = Some \<lparr>percentage = Some 50\<rparr>"
  "percentage \<lparr>percentage = Some 50\<rparr> = Some 50"
  by (simp_all add: oneSell_def sellDecision_def holdDecision_def)

section \<open>The stages around the loop\<close>

subsection \<open>Snapshot collection\<close>

lemma fetchAll_settled:
  "\<exists>ms. fst (fetchAll e tr ss) = map Inr ms \<and> length ms = length ss \<and>
        validMarketStates ms = snapshots e tr ss"
proof (induction ss arbitrary: tr)
  case Nil
  show ?case by simp
next
  case (Cons s ss)
  show ?case
  proof (cases "getCurrentMarketState e tr s")
    case (Inl err)
    from Cons.IH [of "tr @ [FetchMarketState s, Console (WarnFetchFailed s)]"] obtain ms where
      "fst (fetchAll e (tr @ [FetchMarketState s, Console (WarnFetchFailed s)]) ss) = map Inr ms"
      "length ms = length ss"
      "validMarketStates ms = snapshots e (tr @ [FetchMarketState s, Console (WarnFetchFailed s)]) ss"
      by blast
    then have "fst (fetchAll e tr (s # ss)) = map Inr (None # ms) \<and>
        length (None # ms) = length (s # ss) \<and>
        validMarketStates (None # ms) = snapshots e tr (s # ss)"
      using Inl by (simp add: fetchOne_def split_beta)
    then show ?thesis by blast
  next
    case (Inr state)
    from Cons.IH [of "tr @ [FetchMarketState s]"] obtain ms where
      "fst (fetchAll e (tr @ [FetchMarketState s]) ss) = map Inr ms"
      "length ms = length ss"
      "validMarketStates ms = snapshots e (tr @ [FetchMarketState s]) ss"
      by blast
    then have "fst (fetchAll e tr (s # ss)) = map Inr (Some (s, state) # ms) \<and>
        length (Some (s, state) # ms) = length (s # ss) \<and>
        validMarketStates (Some (s, state) # ms) = snapshots e tr (s # ss)"
      using Inr by (simp add: fetchOne_def split_beta)
    then show ?thesis by blast
  qed
qed

lemma promise_all_values [simp]: "promise_all (map Inr ms) = Inr ms"
  by (induction ms) simp_all

lemma fetchAll_events:
  "\<exists>evs. snd (fetchAll e tr ss) = tr @ evs \<and> list_all gatherEvent evs \<and>
         [s. FetchMarketState s \<leftarrow> evs] = ss"
proof (induction ss arbitrary: tr)
  case Nil
  show ?case by simp
next
  case (Cons s ss)
  obtain evs1 where 1: "snd (fetchOne e tr s) = tr @ evs1" "list_all gatherEvent evs1"
      "[x. FetchMarketState x \<leftarrow> evs1] = [s]"
    by (cases "getCurrentMarketState e tr s") (simp_all add: fetchOne_def)
  from Cons.IH [of "snd (fetchOne e tr s)"] obtain evs2 where
    2: "snd (fetchAll e (snd (fetchOne e tr s)) ss) = snd (fetchOne e tr s) @ evs2"
       "list_all gatherEvent evs2" "[x. FetchMarketState x \<leftarrow> evs2] = ss"
    by blast
  have "snd (fetchAll e tr (s # ss)) = tr @ (evs1 @ evs2) \<and> list_all gatherEvent (evs1 @ evs2) \<and>
        [x. FetchMarketState x \<leftarrow> evs1 @ evs2] = s # ss"
    using 1 2 by (simp add: split_beta)
  then show ?case by blast
qed

lemma snapshots_subset: "fst ` set (snapshots e tr ss) \<subseteq> set ss"
  by (induction ss arbitrary: tr) (auto split: sum.splits)

lemma snapshots_keeps:
  "s \<in> set ss \<Longrightarrow> (\<forall>h. fetched (getCurrentMarketState e h s)) \<Longrightarrow>
     s \<in> fst ` set (snapshots e tr ss)"
proof (induction ss arbitrary: tr)
  case Nil
  then show ?case by simp
next
  case (Cons x ss)
  show ?case
  proof (cases "x = s")
    case True
    from Cons.prems(2) have "fetched (getCurrentMarketState e tr s)" by blast
    then obtain state where "getCurrentMarketState e tr s = Inr state"
      by (cases "getCurrentMarketState e tr s") simp_all
    with True show ?thesis by simp
  next
    case False
    with Cons.prems(1) have "s \<in> set ss" by simp
    from Cons.IH [OF this Cons.prems(2)] show ?thesis
      by (cases "getCurrentMarketState e tr x") auto
  qed
qed

lemma snapshots_drops:
  "(\<forall>h. \<not> fetched (getCurrentMarketState e h s)) \<Longrightarrow> s \<notin> fst ` set (snapshots e tr ss)"
proof (induction ss arbitrary: tr)
  case Nil
  show ?case by simp
next
  case (Cons x ss)
  show ?case
  proof (cases "getCurrentMarketState e tr x")
    case (Inl err)
    with Cons.IH [OF Cons.prems] show ?thesis by simp
  next
    case (Inr state)
    from Cons.prems have "\<not> fetched (getCurrentMarketState e tr s)" by blast
    with Inr have "x \<noteq> s" by auto
    with Inr Cons.IH [OF Cons.prems] show ?thesis by auto
  qed
qed

lemma fetchAll_warns:
  "s \<in> set ss \<Longrightarrow> (\<forall>h. \<not> fetched (getCurrentMarketState e h s)) \<Longrightarrow>
     Console (WarnFetchFailed s) \<in> set (newEvents tr (snd (fetchAll e tr ss)))"
proof (induction ss arbitrary: tr)
  case Nil
  then show ?case by simp
next
  case (Cons x ss)
  from fetchAll_events [of e "snd (fetchOne e tr x)" ss] obtain evs2 where
    2: "snd (fetchAll e (snd (fetchOne e tr x)) ss) = snd (fetchOne e tr x) @ evs2" by blast
  show ?case
  proof (cases "x = s")
    case True
    from Cons.prems(2) have "\<not> fetched (getCurrentMarketState e tr s)" by blast
    then obtain err where "getCurrentMarketState e tr s = Inl err"
      by (cases "getCurrentMarketState e tr s") simp_all
    then have "snd (fetchOne e tr s) = tr @ [FetchMarketState s, Console (WarnFetchFailed s)]"
      by (simp add: fetchOne_def)
    with 2 True show ?thesis by (simp add: split_beta)
  next
    case False
    with Cons.prems(1) have "s \<in> set ss" by simp
    from Cons.IH [OF this Cons.prems(2), of "snd (fetchOne e tr x)"] 2
    have w: "Console (WarnFetchFailed s) \<in> set evs2" by simp
    obtain evs1 where 1: "snd (fetchOne e tr x) = tr @ evs1"
      by (cases "getCurrentMarketState e tr x") (simp_all add: fetchOne_def)
    from 1 2 w show ?thesis by (simp add: split_beta)
  qed
qed

subsection \<open>Gathering, the oracle call and validation\<close>

lemma gather_eq:
  "gather e ic tr =
     (case getAccountInformationAndPerformance e (snd (fetchAll e tr supportedSymbols)) ic of
        Inl err \<Rightarrow> (Inl (AccountUnavailable err),
                    snd (fetchAll e tr supportedSymbols) @ [GetAccount ic])
      | Inr acct \<Rightarrow>
          (Inr (acct, generateUserPrompt e (snapshots e tr supportedSymbols) acct,
                getTradingPrompt e supportedSymbolEnums),
           snd (fetchAll e tr supportedSymbols) @ [GetAccount ic]))"
proof -
  from fetchAll_settled [of e tr supportedSymbols] obtain ms where
    "fst (fetchAll e tr supportedSymbols) = map Inr ms"
    "validMarketStates ms = snapshots e tr supportedSymbols"
    by blast
  then show ?thesis
    by (simp add: gather_def split_beta split: sum.splits)
qed

lemma gather_events:
  assumes "gather e ic tr = (r, tr2)"
  shows "\<exists>evs. tr2 = tr @ evs \<and> list_all gatherEvent evs"
proof -
  from fetchAll_events [of e tr supportedSymbols] obtain evs where
    f: "snd (fetchAll e tr supportedSymbols) = tr @ evs" "list_all gatherEvent evs" by blast
  have "tr2 = tr @ (evs @ [GetAccount ic])"
    using assms f(1) by (auto simp: gather_eq split: sum.splits)
  moreover have "list_all gatherEvent (evs @ [GetAccount ic])" using f(2) by simp
  ultimately show ?thesis by blast
qed

lemma parseObject_Some:
  assumes "parseObject ob0 = Some ob"
  shows "\<exists>raw. ob0 = Some (DecisionsObject raw) \<and> ob = DecisionsObject (map stripDecision raw) \<and>
           1 \<le> length raw \<and> length raw \<le> 5 \<and> list_all decisionSchema raw"
  using assms
  by (auto simp: parseObject_def split: option.splits ai_object.splits if_splits)

lemma aiCall_Inr:
  assumes "aiCall e tr tp up = (Inr (ob, rt), tr')"
  shows "\<exists>res. generateObject e tr tp up = Resolved res \<and> parseObject (object res) = Some ob \<and>
           rt = extractReasoning res ob \<and> tr' = tr @ [OracleCall tp up]"
  using assms
  by (auto simp: aiCall_def Let_def split: oracle_outcome.splits option.splits)

lemma aiCall_Resolved:
  "generateObject e tr tp up = Resolved res \<Longrightarrow> parseObject (object res) = Some ob \<Longrightarrow>
     aiCall e tr tp up = (Inr (ob, extractReasoning res ob), tr @ [OracleCall tp up])"
  by (simp add: aiCall_def Let_def)

lemma prepare_Inr:
  assumes "prepare e ic tr0 = (Inr (acct, up, rt, ds), tr)"
  shows "\<exists>tp tr1 res raw.
           gather e ic tr0 = (Inr (acct, up, tp), tr1) \<and>
           generateObject e tr1 tp up = Resolved res \<and>
           object res = Some (DecisionsObject raw) \<and>
           1 \<le> length raw \<and> length raw \<le> 5 \<and> list_all decisionSchema raw \<and>
           ds = map stripDecision raw \<and> tr = tr1 @ [OracleCall tp up]"
proof -
  obtain g tr1 where g: "gather e ic tr0 = (g, tr1)" by (cases "gather e ic tr0")
  with assms obtain tp where g1: "g = Inr (acct, up, tp)"
    by (cases g) (auto simp: prepare_def split: prod.splits sum.splits option.splits)
  obtain a tr3 where a: "aiCall e tr1 tp up = (a, tr3)" by (cases "aiCall e tr1 tp up")
  with assms g g1 obtain ob where a1: "a = Inr (ob, rt)" "decisionsOf ob = Some ds" "tr3 = tr"
    by (cases a) (auto simp: prepare_def split: prod.splits sum.splits option.splits)
  from aiCall_Inr [OF a [unfolded a1(1)]] obtain res where
    r: "generateObject e tr1 tp up = Resolved res" "parseObject (object res) = Some ob"
       "tr3 = tr1 @ [OracleCall tp up]" by blast
  from parseObject_Some [OF r(2)] obtain raw where
    p: "object res = Some (DecisionsObject raw)" "ob = DecisionsObject (map stripDecision raw)"
       "1 \<le> length raw" "length raw \<le> 5" "list_all decisionSchema raw" by blast
  from a1(2) p(2) have "ds = map stripDecision raw" by (simp add: decisionsOf_def)
  with g g1 r(1,3) a1(3) p show ?thesis by blast
qed

lemma prepare_Resolved:
  assumes "gather e ic tr0 = (Inr (acct, up, tp), tr1)"
    and "generateObject e tr1 tp up = Resolved res"
    and "parseObject (object res) = Some (DecisionsObject ds)"
  shows "prepare e ic tr0 =
           (Inr (acct, up, extractReasoning res (DecisionsObject ds), ds),
            tr1 @ [OracleCall tp up])"
  using assms by (simp add: prepare_def aiCall_Resolved decisionsOf_def)

lemma prepare_events:
  assumes "prepare e ic tr0 = (Inr (acct, up, rt, ds), tr)"
  shows "\<exists>evs tp. tr = tr0 @ evs @ [OracleCall tp up] \<and> list_all gatherEvent evs"
proof -
  from prepare_Inr [OF assms] obtain tp tr1 where
    g: "gather e ic tr0 = (Inr (acct, up, tp), tr1)" "tr = tr1 @ [OracleCall tp up]" by blast
  from gather_events [OF g(1)] g(2) show ?thesis by auto
qed

lemma stripDecision_fields [simp]:
  "symbol (stripDecision d) = symbol d"
  "prediction (stripDecision d) = prediction d"
  "opeartion (stripDecision d) = opeartion d"
  "buy (stripDecision d) = buy d"
  "top_pricing (stripDecision d) = None"
  "top_amount (stripDecision d) = None"
  "top_leverage (stripDecision d) = None"
  by (simp_all add: stripDecision_def)

lemma run_of_prepare:
  assumes "prepare e ic (w_trace w) = (Inr (acct, up, rt, ds), tr)"
  shows "run e ic w =
     (case tradeCycle e acct up rt ds (w\<lparr>w_trace := tr\<rparr>) of
        (Inl err, w1) \<Rightarrow> (Inl err, w1\<lparr>w_trace := w_trace w1 @ [Console ErrorTrading]\<rparr>)
      | (Inr u, w1) \<Rightarrow> (Inr u, w1))"
  using assms by (simp add: run_def runBody_def)

subsection \<open>The daily-loss gate and the ledger write\<close>

lemma gatherEvent_classes:
  "list_all gatherEvent evs \<Longrightarrow>
     \<not> list_ex is_GatewayCall evs \<and> filter is_ChatCreate evs = [] \<and> filter is_OracleCall evs = []"
proof (induction evs)
  case Nil
  show ?case by simp
next
  case (Cons ev evs)
  then show ?case by (cases ev) simp_all
qed

lemma loopEvent_classes:
  "list_all loopEvent evs \<Longrightarrow> filter is_ChatCreate evs = [] \<and> filter is_OracleCall evs = []"
proof (induction evs)
  case Nil
  show ?case by simp
next
  case (Cons ev evs)
  then show ?case by (cases ev) simp_all
qed

lemma persist_eq:
  "persist e r w =
     (case chat_create e (w_trace w) r of None \<Rightarrow> Inr () | Some err \<Rightarrow> Inl (LedgerWriteFailed err),
      \<lparr>w_trace = w_trace w @ [ChatCreate r],
       ledger = (case chat_create e (w_trace w) r of None \<Rightarrow> ledger w @ [r] | Some err \<Rightarrow> ledger w)\<rparr>)"
  by (simp add: persist_def split: option.splits)

lemma run_blocked:
  assumes p: "prepare e ic (w_trace w) = (Inr (acct, up, rt, ds), tr)"
    and d: "\<not> allowed (dailyLossCheck e acct)"
  shows "fst (run e ic w) =
           (case chat_create e (tr @ [dailyLossLine e acct]) (blockedRecord e acct up rt ds) of
              None \<Rightarrow> Inr () | Some err \<Rightarrow> Inl (LedgerWriteFailed err))"
    and "ledger (snd (run e ic w)) =
           (case chat_create e (tr @ [dailyLossLine e acct]) (blockedRecord e acct up rt ds) of
              None \<Rightarrow> ledger w @ [blockedRecord e acct up rt ds] | Some err \<Rightarrow> ledger w)"
    and "w_trace (snd (run e ic w)) =
           tr @ [dailyLossLine e acct, ChatCreate (blockedRecord e acct up rt ds)] @
           (case chat_create e (tr @ [dailyLossLine e acct]) (blockedRecord e acct up rt ds) of
              None \<Rightarrow> [] | Some err \<Rightarrow> [Console ErrorTrading])"
  using d
  by (simp_all add: run_of_prepare [OF p] tradeCycle_def persist_eq dailyLossLine_def
      split: option.splits)

lemma holdOverride_op [simp]: "t_opeartion (createTradingData d holdOverride) = Hold"
  by (simp add: holdOverride_def no_overrides_def createTradingData_def spread_def)

lemma blockedRecord_tradings:
  "list_all (\<lambda>t. t_opeartion t = Hold) (c_tradings (blockedRecord e acct up rt ds))"
  "map t_symbol (c_tradings (blockedRecord e acct up rt ds)) = map symbol ds"
  "map t_prediction (c_tradings (blockedRecord e acct up rt ds)) = map prediction ds"
  by (simp_all add: blockedRecord_def list_all_iff comp_def)

lemma run_oracle_failure:
  assumes g: "gather e ic (w_trace w) = (Inr (acct, up, tp), tr)"
    and o: "oracleTimedOutOrInvalid e tr tp up"
  shows "run e ic w =
     (Inl (AIFailed (oracleFailureMessage e tr tp up)),
      w\<lparr>w_trace := tr @ [OracleCall tp up,
                          Console (ErrorAIFailed (oracleFailureMessage e tr tp up)),
                          Console ErrorTrading]\<rparr>)"
  using o
  by (simp add: run_def runBody_def prepare_def g aiCall_def Let_def
        oracleTimedOutOrInvalid_def oracleFailureMessage_def split: oracle_outcome.splits)

lemma run_allowed:
  assumes p: "prepare e ic (w_trace w) = (Inr (acct, up, rt, ds), tr)"
    and d: "allowed (dailyLossCheck e acct)"
  shows "fst (run e ic w) =
           (case chat_create e (trace (processDecisions e (initialLoopState acct tr) ds))
                   (cycleRecord up rt (processDecisions e (initialLoopState acct tr) ds)) of
              None \<Rightarrow> Inr () | Some err \<Rightarrow> Inl (LedgerWriteFailed err))"
    and "ledger (snd (run e ic w)) =
           (case chat_create e (trace (processDecisions e (initialLoopState acct tr) ds))
                   (cycleRecord up rt (processDecisions e (initialLoopState acct tr) ds)) of
              None \<Rightarrow> ledger w @ [cycleRecord up rt (processDecisions e (initialLoopState acct tr) ds)]
            | Some err \<Rightarrow> ledger w)"
    and "w_trace (snd (run e ic w)) =
           trace (processDecisions e (initialLoopState acct tr) ds) @
           [ChatCreate (cycleRecord up rt (processDecisions e (initialLoopState acct tr) ds))] @
           (case chat_create e (trace (processDecisions e (initialLoopState acct tr) ds))
                   (cycleRecord up rt (processDecisions e (initialLoopState acct tr) ds)) of
              None \<Rightarrow> [] | Some err \<Rightarrow> [Console ErrorTrading])"
  using d
  by (simp_all add: run_of_prepare [OF p] tradeCycle_def persist_eq Let_def
      split: option.splits)

lemma cycleRecord_tradings:
  "\<exists>rs. c_tradings (cycleRecord up rt (processDecisions e (initialLoopState acct tr) ds)) = rs \<and>
        map t_symbol rs = map symbol ds \<and> map t_prediction rs = map prediction ds"
  using loop_records [of e "initialLoopState acct tr" ds]
  by (auto simp: cycleRecord_def initialLoopState_def)

text \<open>A successful cycle persists one record that matches the prepared decisions.\<close>

lemma run_success_record:
  assumes p: "prepare e ic (w_trace w) = (Inr (acct, up, rt, ds), tr)"
    and ok: "fst (run e ic w) = Inr ()"
  shows "\<exists>r. ledger (snd (run e ic w)) = ledger w @ [r] \<and>
           filter is_ChatCreate (cycleEvents e ic w) = [ChatCreate r] \<and>
           map t_symbol (c_tradings r) = map symbol ds \<and>
           map t_prediction (c_tradings r) = map prediction ds"
proof -
  from prepare_events [OF p] obtain evs tp where
    t: "tr = w_trace w @ evs @ [OracleCall tp up]" "list_all gatherEvent evs" by blast
  note c = gatherEvent_classes [OF t(2)]
  show ?thesis
  proof (cases "allowed (dailyLossCheck e acct)")
    case False
    note b = run_blocked [OF p False]
    let ?r = "blockedRecord e acct up rt ds"
    from ok b(1) have a: "chat_create e (tr @ [dailyLossLine e acct]) ?r = None"
      by (simp split: option.splits)
    have 1: "ledger (snd (run e ic w)) = ledger w @ [?r]" using b(2) a by simp
    have 2: "filter is_ChatCreate (cycleEvents e ic w) = [ChatCreate ?r]"
      using c by (simp add: cycleEvents_def b(3) a t(1) dailyLossLine_def)
    from 1 2 blockedRecord_tradings(2,3) [of e acct up rt ds] show ?thesis by blast
  next
    case True
    note b = run_allowed [OF p True]
    let ?st = "processDecisions e (initialLoopState acct tr) ds"
    let ?r = "cycleRecord up rt ?st"
    from ok b(1) have a: "chat_create e (trace ?st) ?r = None"
      by (simp split: option.splits)
    from loop_events [of e "initialLoopState acct tr" ds] obtain levs where
      l: "trace ?st = tr @ levs" "list_all loopEvent levs"
      by (auto simp: initialLoopState_def)
    note lc = loopEvent_classes [OF l(2)]
    have 1: "ledger (snd (run e ic w)) = ledger w @ [?r]" using b(2) a by simp
    have tst: "trace ?st = w_trace w @ (evs @ [OracleCall tp up] @ levs)"
      using l(1) t(1) by simp
    have 2: "filter is_ChatCreate (cycleEvents e ic w) = [ChatCreate ?r]"
      using c lc by (simp add: cycleEvents_def b(3) a tst)
    from cycleRecord_tradings [of up rt e acct tr ds]
    have 3: "map t_symbol (c_tradings ?r) = map symbol ds"
      "map t_prediction (c_tradings ?r) = map prediction ds" by auto
    from 1 2 3 show ?thesis by blast
  qed
qed

lemma blockedTrading_eq:
  assumes "decisionSchema d0"
  shows "createTradingData (stripDecision d0) holdOverride = blockedTrading (stripDecision d0)"
proof -
  have l: "js_or (js_or (buy_leverage (stripDecision d0)) None) None = buy_leverage (stripDecision d0)"
    using assms
    by (auto simp: decisionSchema_def buySchema_def buy_leverage_def js_or_def truthy_def
        split: option.splits)
  have p: "js_or (js_or (js_or None (buy_pricing (stripDecision d0))) None) None =
      nonZero (buy_pricing (stripDecision d0))"
    by (simp add: js_or_def truthy_def nonZero_def)
  have a: "js_or (js_or (js_or None (buy_amount (stripDecision d0))) None) None =
      nonZero (buy_amount (stripDecision d0))"
    by (simp add: js_or_def truthy_def nonZero_def)
  show ?thesis
    using l p a
    by (simp add: createTradingData_def spread_def tradingBase_def holdOverride_def
          no_overrides_def blockedTrading_def get_key_def split: option.splits)
qed

section \<open>The claims\<close>

subsection \<open>C1: committed margin and available cash\<close>




subsection \<open>C2: a Buy denied by a risk gate\<close>

text \<open>
  Claim C2 says that a Buy denied by either risk gate is recorded as Hold with its reason.
  For a Buy denied by \<^verbatim>\<open>checkBuyRisk\<close> the code records the reason in the chat and
  places no order, but the trade record keeps the operation Buy with the requested price,
  amount and leverage: the override \<^verbatim>\<open>opeartion: Opeartion.Hold\<close> that the branch for
  an insufficient balance passes is missing in this branch.
\<close>

theorem risk_denied_buy_keeps_operation_buy:
  assumes "opeartion d = Buy" "buy d = Some b" "pricing b = Some p" "amount b = Some a"
    "leverage b = Some l"
    and "\<not> allowed (checkBuyRisk e a p l (remainingAvailableCash st) (getRiskConfig e))"
  shows "stepRecord e st d =
           \<lparr>t_symbol = symbol d, t_opeartion = Buy, t_pricing = Some p, t_amount = Some a,
            t_leverage = Some l, t_prediction = prediction d,
            t_stopLoss = None, t_takeProfit = None\<rparr> \<and>
         stepChat e st d = ownChat d @
           [BlockedRisk (symbol d)
              (reason (checkBuyRisk e a p l (remainingAvailableCash st) (getRiskConfig e)))] \<and>
         \<not> list_ex is_GatewayCall (stepEvents e st d) \<and>
         remainingAvailableCash (processDecision e st d) = remainingAvailableCash st"
proof -
  have s: "processDecision e st d =
      buyRiskDenied (noteChat st d) d
        (checkBuyRisk e a p l (remainingAvailableCash st) (getRiskConfig e)) p a l"
    using assms by (simp add: processDecision_def processBuy_present checkedBuy_def Let_def)
  have r: "stepRecord e st d =
           \<lparr>t_symbol = symbol d, t_opeartion = Buy, t_pricing = Some p, t_amount = Some a,
            t_leverage = Some l, t_prediction = prediction d,
            t_stopLoss = None, t_takeProfit = None\<rparr>"
    using assms(1)
    by (simp add: stepRecord_def s buyRiskDenied_def pushRecord_def createTradingData_explicit)
  have c: "stepChat e st d = ownChat d @
           [BlockedRisk (symbol d)
              (reason (checkBuyRisk e a p l (remainingAvailableCash st) (getRiskConfig e)))]"
    by (simp add: stepChat_def s noteChat_chat)
  have g: "\<not> list_ex is_GatewayCall (stepEvents e st d)"
    by (simp add: stepEvents_def s)
  have m: "remainingAvailableCash (processDecision e st d) = remainingAvailableCash st"
    by (simp add: s)
  from r c g m show ?thesis by blast
qed

text \<open>
  The sibling branch: a Buy that passes the per-trade check and does not fit the running
  balance is recorded as Hold, with its reason in the chat and no order placed.
\<close>

lemma insufficient_balance_downgraded_to_hold:
  assumes "opeartion d = Buy" "buy d = Some b" "pricing b = Some p" "amount b = Some a"
    "leverage b = Some l"
    and "allowed (checkBuyRisk e a p l (remainingAvailableCash st) (getRiskConfig e))"
    and "requiredMargin a p l > remainingAvailableCash st"
  shows "t_opeartion (stepRecord e st d) = Hold \<and>
         stepChat e st d = ownChat d @
           [BlockedInsufficient (symbol d) (requiredMargin a p l) (remainingAvailableCash st)] \<and>
         \<not> list_ex is_GatewayCall (stepEvents e st d) \<and>
         remainingAvailableCash (processDecision e st d) = remainingAvailableCash st"
proof -
  have s: "processDecision e st d = buyInsufficient (noteChat st d) d (requiredMargin a p l)"
    using assms by (simp add: processDecision_def processBuy_present checkedBuy_def Let_def)
  have r: "t_opeartion (stepRecord e st d) = Hold"
    by (simp add: stepRecord_def s buyInsufficient_def pushRecord_def createTradingData_def
          spread_def no_overrides_def)
  have c: "stepChat e st d = ownChat d @
           [BlockedInsufficient (symbol d) (requiredMargin a p l) (remainingAvailableCash st)]"
    by (simp add: stepChat_def s noteChat_chat)
  have g: "\<not> list_ex is_GatewayCall (stepEvents e st d)"
    by (simp add: stepEvents_def s)
  have m: "remainingAvailableCash (processDecision e st d) = remainingAvailableCash st"
    by (simp add: s)
  from r c g m show ?thesis by blast
qed

text \<open>The failing input: one Buy, and a per-trade risk check that denies it.\<close>

theorem risk_denied_buy_witness:
  "opeartion oneBuy = Buy \<and> buy oneBuy = Some (buyPayload 100 30 5) \<and>
   \<not> allowed (checkBuyRisk denyEnv 30 100 5 (remainingAvailableCash startState)
         (getRiskConfig denyEnv)) \<and>
   t_opeartion (stepRecord denyEnv startState oneBuy) = Buy \<and>
   stepChat denyEnv startState oneBuy =
     [DecisionChat BTC ''enter'', BlockedRisk BTC (Some ''position size exceeds limit'')] \<and>
   map t_opeartion (c_tradings (last (ledger (snd (run denyEnv None emptyWorld))))) = [Buy]"
proof -
  have n: "\<not> allowed (checkBuyRisk denyEnv 30 100 5 (remainingAvailableCash startState)
         (getRiskConfig denyEnv))"
    by (simp add: denyEnv_def deny_def)
  note t = risk_denied_buy_keeps_operation_buy [OF oneBuy_fields(1-5) n]
  have a: "t_opeartion (stepRecord denyEnv startState oneBuy) = Buy"
    using t by simp
  have c: "stepChat denyEnv startState oneBuy =
     [DecisionChat BTC ''enter'', BlockedRisk BTC (Some ''position size exceeds limit'')]"
    by code_simp
  have r: "map t_opeartion (c_tradings (last (ledger (snd (run denyEnv None emptyWorld))))) = [Buy]"
    by code_simp
  from oneBuy_fields(1,2) n a c r show ?thesis by blast
qed

subsection \<open>C3: the daily-loss gate\<close>

text \<open>
  Claim C3: in every cycle in which \<^verbatim>\<open>checkDailyLossLimit\<close> denies, no buy, sell or
  protective-order call is made, exactly one ledger write is issued, every trade record
  in it has the operation Hold (one per decision, in order), and the record is in the
  ledger afterwards whenever the store accepts the write (if the store fails, the cycle
  throws and the ledger is unchanged).
\<close>

theorem daily_loss_gate_blocks_cycle:
  assumes "prepare e ic (w_trace w) = (Inr (acct, up, rt, ds), tr)"
    and "\<not> allowed (dailyLossCheck e acct)"
  shows "\<not> list_ex is_GatewayCall (cycleEvents e ic w) \<and>
         filter is_ChatCreate (cycleEvents e ic w) = [ChatCreate (blockedRecord e acct up rt ds)] \<and>
         list_all (\<lambda>t. t_opeartion t = Hold) (c_tradings (blockedRecord e acct up rt ds)) \<and>
         map t_symbol (c_tradings (blockedRecord e acct up rt ds)) = map symbol ds \<and>
         ledger (snd (run e ic w)) =
           (case chat_create e (tr @ [dailyLossLine e acct]) (blockedRecord e acct up rt ds) of
              None \<Rightarrow> ledger w @ [blockedRecord e acct up rt ds]
            | Some err \<Rightarrow> ledger w) \<and>
         fst (run e ic w) =
           (case chat_create e (tr @ [dailyLossLine e acct]) (blockedRecord e acct up rt ds) of
              None \<Rightarrow> Inr ()
            | Some err \<Rightarrow> Inl (LedgerWriteFailed err))"
proof -
  from prepare_events [OF assms(1)] obtain evs tp where
    t: "tr = w_trace w @ evs @ [OracleCall tp up]" "list_all gatherEvent evs" by blast
  note c = gatherEvent_classes [OF t(2)]
  have ev: "cycleEvents e ic w =
      evs @ [OracleCall tp up, dailyLossLine e acct, ChatCreate (blockedRecord e acct up rt ds)] @
      (case chat_create e (tr @ [dailyLossLine e acct]) (blockedRecord e acct up rt ds) of
         None \<Rightarrow> [] | Some err \<Rightarrow> [Console ErrorTrading])"
    by (simp add: cycleEvents_def run_blocked(3) [OF assms] t(1))
  have g: "\<not> list_ex is_GatewayCall (cycleEvents e ic w)"
    using c by (simp add: ev dailyLossLine_def split: option.splits)
  have k: "filter is_ChatCreate (cycleEvents e ic w) = [ChatCreate (blockedRecord e acct up rt ds)]"
    using c by (simp add: ev dailyLossLine_def split: option.splits)
  from g k blockedRecord_tradings(1,2) [of e acct up rt ds] run_blocked(1,2) [OF assms]
  show ?thesis by blast
qed

text \<open>
  The scenario of the specification: an unrealized loss of 150 on a capital of 1000 with a
  limit of 10 percent, and two Buys proposed.
\<close>

theorem daily_loss_gate_witness:
  "prepare (lossEnv twoBuys) None (w_trace emptyWorld) =
     (Inr (lossAccount, fullPrompt, ''because'', twoBuys),
      snd (prepare (lossEnv twoBuys) None (w_trace emptyWorld))) \<and>
   \<not> allowed (dailyLossCheck (lossEnv twoBuys) lossAccount) \<and>
   \<not> list_ex is_GatewayCall (cycleEvents (lossEnv twoBuys) None emptyWorld) \<and>
   fst (run (lossEnv twoBuys) None emptyWorld) = Inr () \<and>
   map (map t_opeartion \<circ> c_tradings) (ledger (snd (run (lossEnv twoBuys) None emptyWorld))) =
     [[Hold, Hold]]"
proof -
  have p: "prepare (lossEnv twoBuys) None (w_trace emptyWorld) =
     (Inr (lossAccount, fullPrompt, ''because'', twoBuys),
      snd (prepare (lossEnv twoBuys) None (w_trace emptyWorld)))"
    by code_simp
  have d: "\<not> allowed (dailyLossCheck (lossEnv twoBuys) lossAccount)"
    by code_simp
  note t = daily_loss_gate_blocks_cycle [OF p d]
  have g: "\<not> list_ex is_GatewayCall (cycleEvents (lossEnv twoBuys) None emptyWorld)"
    using t by blast
  have r: "fst (run (lossEnv twoBuys) None emptyWorld) = Inr ()"
    by code_simp
  have l: "map (map t_opeartion \<circ> c_tradings)
      (ledger (snd (run (lossEnv twoBuys) None emptyWorld))) = [[Hold, Hold]]"
    by code_simp
  from p d g r l show ?thesis by blast
qed

subsection \<open>C4: one cycle record, one trade record per decision\<close>

text \<open>
  Claim C4: in every successful cycle whose oracle returned the decisions \<open>raw\<close>, there
  are between one and five of them, exactly one cycle record is written, and it holds
  exactly one trade record per decision, in the order of the decisions (the symbols and
  the predictions of the records are those of the decisions, position by position).
\<close>

theorem one_record_per_decision_in_order:
  assumes g: "gather e ic (w_trace w) = (Inr (acct, up, tp), tr)"
    and o: "generateObject e tr tp up = Resolved res"
    and ob: "object res = Some (DecisionsObject raw)"
    and ok: "fst (run e ic w) = Inr ()"
  shows "1 \<le> length raw \<and> length raw \<le> 5 \<and>
         (\<exists>r. ledger (snd (run e ic w)) = ledger w @ [r] \<and>
              filter is_ChatCreate (cycleEvents e ic w) = [ChatCreate r] \<and>
              length (c_tradings r) = length raw \<and>
              map t_symbol (c_tradings r) = map symbol raw \<and>
              map t_prediction (c_tradings r) = map prediction raw)"
proof -
  have v: "parseObject (object res) \<noteq> None"
  proof
    assume "parseObject (object res) = None"
    with o have "oracleTimedOutOrInvalid e tr tp up"
      by (simp add: oracleTimedOutOrInvalid_def)
    from run_oracle_failure [OF g this] ok show False by simp
  qed
  then obtain ob' where ob': "parseObject (object res) = Some ob'" by blast
  from parseObject_Some [OF ob'] ob have
    s: "ob' = DecisionsObject (map stripDecision raw)" "1 \<le> length raw" "length raw \<le> 5"
    by auto
  from prepare_Resolved [OF g o ob' [unfolded s(1)]]
  have p: "prepare e ic (w_trace w) =
     (Inr (acct, up, extractReasoning res (DecisionsObject (map stripDecision raw)),
           map stripDecision raw), tr @ [OracleCall tp up])" .
  from run_success_record [OF p ok] obtain r where
    r: "ledger (snd (run e ic w)) = ledger w @ [r]"
       "filter is_ChatCreate (cycleEvents e ic w) = [ChatCreate r]"
       "map t_symbol (c_tradings r) = map symbol (map stripDecision raw)"
       "map t_prediction (c_tradings r) = map prediction (map stripDecision raw)"
    by blast
  have 1: "map t_symbol (c_tradings r) = map symbol raw" using r(3) by (simp add: comp_def)
  have 2: "map t_prediction (c_tradings r) = map prediction raw"
    using r(4) by (simp add: comp_def)
  from 1 have 3: "length (c_tradings r) = length raw" by (rule map_eq_imp_length_eq)
  from s(2,3) r(1,2) 1 2 3 show ?thesis by blast
qed

theorem one_record_per_decision_witness:
  "gather (sampleEnv 1000 twoBuys) None (w_trace emptyWorld) =
     (Inr (accountWith 1000, fullPrompt, ''system''),
      snd (gather (sampleEnv 1000 twoBuys) None (w_trace emptyWorld))) \<and>
   generateObject (sampleEnv 1000 twoBuys)
     (snd (gather (sampleEnv 1000 twoBuys) None (w_trace emptyWorld))) ''system'' fullPrompt =
     Resolved (sampleResult twoBuys) \<and>
   object (sampleResult twoBuys) = Some (DecisionsObject twoBuys) \<and>
   fst (run (sampleEnv 1000 twoBuys) None emptyWorld) = Inr () \<and>
   length (ledger (snd (run (sampleEnv 1000 twoBuys) None emptyWorld))) = 1 \<and>
   map (map t_symbol \<circ> c_tradings) (ledger (snd (run (sampleEnv 1000 twoBuys) None emptyWorld))) =
     [[BTC, ETH]] \<and>
   map (map t_opeartion \<circ> c_tradings) (ledger (snd (run (sampleEnv 1000 twoBuys) None emptyWorld))) =
     [[Buy, Hold]]"
proof -
  have g: "gather (sampleEnv 1000 twoBuys) None (w_trace emptyWorld) =
     (Inr (accountWith 1000, fullPrompt, ''system''),
      snd (gather (sampleEnv 1000 twoBuys) None (w_trace emptyWorld)))"
    by code_simp
  have o: "generateObject (sampleEnv 1000 twoBuys)
     (snd (gather (sampleEnv 1000 twoBuys) None (w_trace emptyWorld))) ''system'' fullPrompt =
     Resolved (sampleResult twoBuys)"
    by (simp add: sampleEnv_def sampleResult_def)
  have ob: "object (sampleResult twoBuys) = Some (DecisionsObject twoBuys)"
    by (simp add: sampleResult_def)
  have ok: "fst (run (sampleEnv 1000 twoBuys) None emptyWorld) = Inr ()"
    by code_simp
  from one_record_per_decision_in_order [OF g o ob ok] obtain r where
    r: "ledger (snd (run (sampleEnv 1000 twoBuys) None emptyWorld)) = ledger emptyWorld @ [r]"
       "map t_symbol (c_tradings r) = map symbol twoBuys"
    by blast
  have e: "ledger emptyWorld = []" by (simp add: emptyWorld_def)
  have sy: "map symbol twoBuys = [BTC, ETH]" by code_simp
  have 1: "length (ledger (snd (run (sampleEnv 1000 twoBuys) None emptyWorld))) = 1"
    using r(1) e by simp
  have 2: "map (map t_symbol \<circ> c_tradings)
      (ledger (snd (run (sampleEnv 1000 twoBuys) None emptyWorld))) = [[BTC, ETH]]"
    using r e sy by simp
  have 3: "map (map t_opeartion \<circ> c_tradings)
      (ledger (snd (run (sampleEnv 1000 twoBuys) None emptyWorld))) = [[Buy, Hold]]"
    by code_simp
  from g o ob ok 1 2 3 show ?thesis by blast
qed

subsection \<open>C5: the oracle call fails\<close>

text \<open>
  Claim C5: if the oracle call runs into the timeout or its output fails the validation
  against the schema, the cycle throws \<^verbatim>\<open>AI failed\<close> to the caller, the ledger is
  unchanged, no ledger write and no buy, sell or protective-order call is issued, and
  exactly one oracle call was made.
\<close>

theorem oracle_failure_aborts_cycle:
  assumes "gather e ic (w_trace w) = (Inr (acct, up, tp), tr)"
    and "oracleTimedOutOrInvalid e tr tp up"
  shows "fst (run e ic w) = Inl (AIFailed (oracleFailureMessage e tr tp up)) \<and>
         ledger (snd (run e ic w)) = ledger w \<and>
         filter is_ChatCreate (cycleEvents e ic w) = [] \<and>
         \<not> list_ex is_GatewayCall (cycleEvents e ic w) \<and>
         filter is_OracleCall (cycleEvents e ic w) = [OracleCall tp up]"
proof -
  note r = run_oracle_failure [OF assms]
  from gather_events [OF assms(1)] obtain evs where
    t: "tr = w_trace w @ evs" "list_all gatherEvent evs" by blast
  note c = gatherEvent_classes [OF t(2)]
  have ev: "cycleEvents e ic w =
      evs @ [OracleCall tp up, Console (ErrorAIFailed (oracleFailureMessage e tr tp up)),
             Console ErrorTrading]"
    by (simp add: cycleEvents_def r t(1))
  have 1: "fst (run e ic w) = Inl (AIFailed (oracleFailureMessage e tr tp up))"
    by (simp add: r)
  have 2: "ledger (snd (run e ic w)) = ledger w" by (simp add: r)
  have 3: "filter is_ChatCreate (cycleEvents e ic w) = []" using c by (simp add: ev)
  have 4: "\<not> list_ex is_GatewayCall (cycleEvents e ic w)" using c by (simp add: ev)
  have 5: "filter is_OracleCall (cycleEvents e ic w) = [OracleCall tp up]"
    using c by (simp add: ev)
  from 1 2 3 4 5 show ?thesis by blast
qed

theorem oracle_failure_witness:
  "gather timeoutEnv None (w_trace emptyWorld) =
     (Inr (accountWith 1000, fullPrompt, ''system''),
      snd (gather timeoutEnv None (w_trace emptyWorld))) \<and>
   oracleTimedOutOrInvalid timeoutEnv (snd (gather timeoutEnv None (w_trace emptyWorld)))
     ''system'' fullPrompt \<and>
   run timeoutEnv None emptyWorld =
     (Inl (AIFailed ''AI call timeout after 120s''),
      \<lparr>w_trace = [FetchMarketState ''BTC/USDT'', FetchMarketState ''ETH/USDT'',
                  FetchMarketState ''SOL/USDT'', FetchMarketState ''BNB/USDT'',
                  FetchMarketState ''DOGE/USDT'', GetAccount None,
                  OracleCall ''system'' fullPrompt,
                  Console (ErrorAIFailed ''AI call timeout after 120s''),
                  Console ErrorTrading],
       ledger = []\<rparr>) \<and>
   gather invalidEnv None (w_trace emptyWorld) =
     (Inr (accountWith 1000, fullPrompt, ''system''),
      snd (gather invalidEnv None (w_trace emptyWorld))) \<and>
   oracleTimedOutOrInvalid invalidEnv (snd (gather invalidEnv None (w_trace emptyWorld)))
     ''system'' fullPrompt \<and>
   fst (run invalidEnv None emptyWorld) = Inl (AIFailed schemaMessage) \<and>
   ledger (snd (run invalidEnv None emptyWorld)) = [] \<and>
   filter is_OracleCall (cycleEvents invalidEnv None emptyWorld) = [OracleCall ''system'' fullPrompt]"
proof -
  have g1: "gather timeoutEnv None (w_trace emptyWorld) =
     (Inr (accountWith 1000, fullPrompt, ''system''),
      snd (gather timeoutEnv None (w_trace emptyWorld)))"
    by code_simp
  have o1: "oracleTimedOutOrInvalid timeoutEnv (snd (gather timeoutEnv None (w_trace emptyWorld)))
     ''system'' fullPrompt"
    by code_simp
  have g2: "gather invalidEnv None (w_trace emptyWorld) =
     (Inr (accountWith 1000, fullPrompt, ''system''),
      snd (gather invalidEnv None (w_trace emptyWorld)))"
    by code_simp
  have o2: "oracleTimedOutOrInvalid invalidEnv (snd (gather invalidEnv None (w_trace emptyWorld)))
     ''system'' fullPrompt"
    by code_simp
  have r1: "run timeoutEnv None emptyWorld =
     (Inl (AIFailed ''AI call timeout after 120s''),
      \<lparr>w_trace = [FetchMarketState ''BTC/USDT'', FetchMarketState ''ETH/USDT'',
                  FetchMarketState ''SOL/USDT'', FetchMarketState ''BNB/USDT'',
                  FetchMarketState ''DOGE/USDT'', GetAccount None,
                  OracleCall ''system'' fullPrompt,
                  Console (ErrorAIFailed ''AI call timeout after 120s''),
                  Console ErrorTrading],
       ledger = []\<rparr>)"
    by code_simp
  have m2: "oracleFailureMessage invalidEnv (snd (gather invalidEnv None (w_trace emptyWorld)))
     ''system'' fullPrompt = schemaMessage"
    by code_simp
  note t2 = oracle_failure_aborts_cycle [OF g2 o2]
  have e: "ledger emptyWorld = []" by (simp add: emptyWorld_def)
  have a: "fst (run invalidEnv None emptyWorld) = Inl (AIFailed schemaMessage)"
    using t2 m2 by simp
  have b: "ledger (snd (run invalidEnv None emptyWorld)) = []"
    using t2 e by simp
  have c: "filter is_OracleCall (cycleEvents invalidEnv None emptyWorld) =
     [OracleCall ''system'' fullPrompt]"
    using t2 by blast
  from g1 o1 r1 g2 o2 a b c show ?thesis by blast
qed

subsection \<open>C6: an approved Buy\<close>

text \<open>
  Claim C6 as stated fails where it says that the trade record of a failed Buy holds the
  failure reason: a trade record has no such field, and the chat of the cycle record gets
  no message either. Two cycles whose Buy fails for different reasons persist the same
  cycle record.
\<close>

theorem buy_failure_reason_counterexample:
  "ledger (snd (run (failEnv ''network down'') None emptyWorld)) =
     ledger (snd (run (failEnv ''insufficient balance'') None emptyWorld)) \<and>
   ledger (snd (run (failEnv ''network down'') None emptyWorld)) =
     [\<lparr>c_reasoning = ''because'',
       c_chat = Combined [DecisionChat BTC ''enter''],
       c_userPrompt = fullPrompt,
       c_tradings =
         [\<lparr>t_symbol = BTC, t_opeartion = Buy, t_pricing = Some 100, t_amount = Some 30,
           t_leverage = Some 5, t_prediction = Some samplePrediction,
           t_stopLoss = None, t_takeProfit = None\<rparr>]\<rparr>]"
  by code_simp

text \<open>
  Claim C6, amended: for every Buy with a payload the schema accepts that passes both
  gates, the order is placed once. On success the running balance is decremented by the
  requested margin \<open>amount * pricing / leverage\<close>; on failure it is unchanged. In both
  cases one trade record with the operation Buy is pushed; its price and amount are the
  executed ones when the venue reports them non-zero and the requested ones otherwise.
  The failure reason goes to the console and to \<^verbatim>\<open>logTrade\<close>, not into the trade
  record or the chat.
\<close>

theorem approved_buy_execution:
  assumes "opeartion d = Buy" "buy d = Some b" "pricing b = Some p" "amount b = Some a"
    "leverage b = Some l" and "buySchema b"
    and "approved e st p a l"
  shows "remainingAvailableCash (processDecision e st d) =
           (if success (buyResult e st d b a l)
            then remainingAvailableCash st - a * p / l
            else remainingAvailableCash st) \<and>
         stepRecord e st d =
           \<lparr>t_symbol = symbol d, t_opeartion = Buy,
            t_pricing = js_or (executedPrice (buyResult e st d b a l)) (Some p),
            t_amount = js_or (executedAmount (buyResult e st d b a l)) (Some a),
            t_leverage = Some l, t_prediction = prediction d,
            t_stopLoss = None, t_takeProfit = None\<rparr> \<and>
         stepEvents e st d =
           BuyCall (buyRequest d b a l) #
           (if success (buyResult e st d b a l) then []
            else [Console (ErrorBuyFailed (error (buyResult e st d b a l)))]) @
           [LogTrade (buyLogEntry e d (buyResult e st d b a l) a l)] \<and>
         l_reason (buyLogEntry e d (buyResult e st d b a l) a l) =
           (if success (buyResult e st d b a l) then Some ''Success''
            else error (buyResult e st d b a l)) \<and>
         stepChat e st d = ownChat d"
proof -
  have s: "processDecision e st d = executeBuy e (noteChat st d) d b p a l"
    using assms by (simp add: processDecision_def processBuy_present checkedBuy_approved)
  have c: "remainingAvailableCash (processDecision e st d) =
           (if success (buyResult e st d b a l)
            then remainingAvailableCash st - a * p / l
            else remainingAvailableCash st)"
    by (simp add: s executeBuy_frame requiredMargin_def)
  have r: "stepRecord e st d =
           \<lparr>t_symbol = symbol d, t_opeartion = Buy,
            t_pricing = js_or (executedPrice (buyResult e st d b a l)) (Some p),
            t_amount = js_or (executedAmount (buyResult e st d b a l)) (Some a),
            t_leverage = Some l, t_prediction = prediction d,
            t_stopLoss = None, t_takeProfit = None\<rparr>"
    using assms(1) by (simp add: stepRecord_def s executeBuy_record createTradingData_explicit)
  have v: "stepEvents e st d =
           BuyCall (buyRequest d b a l) #
           (if success (buyResult e st d b a l) then []
            else [Console (ErrorBuyFailed (error (buyResult e st d b a l)))]) @
           [LogTrade (buyLogEntry e d (buyResult e st d b a l) a l)]"
    by (simp add: stepEvents_def s executeBuy_frame)
  have l: "l_reason (buyLogEntry e d (buyResult e st d b a l) a l) =
           (if success (buyResult e st d b a l) then Some ''Success''
            else error (buyResult e st d b a l))"
    by (simp add: buyLogEntry_def)
  have h: "stepChat e st d = ownChat d"
    by (simp add: stepChat_def s executeBuy_frame noteChat_chat)
  from c r v l h show ?thesis by blast
qed

text \<open>A filled Buy (1000 - 30 * 100 / 5 = 400) and a Buy the venue rejects.\<close>

theorem approved_buy_witness:
  "opeartion oneBuy = Buy \<and> buy oneBuy = Some (buyPayload 100 30 5) \<and>
   buySchema (buyPayload 100 30 5) \<and>
   approved (sampleEnv 1000 [oneBuy]) startState 100 30 5 \<and>
   success (buyResult (sampleEnv 1000 [oneBuy]) startState oneBuy (buyPayload 100 30 5) 30 5) \<and>
   remainingAvailableCash (processDecision (sampleEnv 1000 [oneBuy]) startState oneBuy) = 400 \<and>
   t_pricing (stepRecord (sampleEnv 1000 [oneBuy]) startState oneBuy) = Some 101 \<and>
   approved (failEnv ''network down'') startState 100 30 5 \<and>
   \<not> success (buyResult (failEnv ''network down'') startState oneBuy (buyPayload 100 30 5) 30 5) \<and>
   remainingAvailableCash (processDecision (failEnv ''network down'') startState oneBuy) = 1000 \<and>
   t_pricing (stepRecord (failEnv ''network down'') startState oneBuy) = Some 100 \<and>
   l_reason (buyLogEntry (failEnv ''network down'') oneBuy
      (buyResult (failEnv ''network down'') startState oneBuy (buyPayload 100 30 5) 30 5) 30 5) =
     Some ''network down''"
proof -
  have c: "remainingAvailableCash startState = 1000"
    by (simp add: startState_def initialLoopState_def accountWith_def)
  have a1: "approved (sampleEnv 1000 [oneBuy]) startState 100 30 5"
    by (simp add: approved_def c sampleEnv_def allow_def requiredMargin_def)
  have a2: "approved (failEnv ''network down'') startState 100 30 5"
    by (simp add: approved_def c failEnv_def sampleEnv_def allow_def requiredMargin_def)
  have s1: "success (buyResult (sampleEnv 1000 [oneBuy]) startState oneBuy (buyPayload 100 30 5) 30 5)"
    by (simp add: buyResult_def sampleEnv_def filled_def)
  have s2: "\<not> success (buyResult (failEnv ''network down'') startState oneBuy (buyPayload 100 30 5) 30 5)"
    by (simp add: buyResult_def failEnv_def failedWith_def)
  have e1: "executedPrice (buyResult (sampleEnv 1000 [oneBuy]) startState oneBuy
      (buyPayload 100 30 5) 30 5) = Some 101"
    by (simp add: buyResult_def sampleEnv_def filled_def)
  have e2: "executedPrice (buyResult (failEnv ''network down'') startState oneBuy
      (buyPayload 100 30 5) 30 5) = None"
       "error (buyResult (failEnv ''network down'') startState oneBuy
      (buyPayload 100 30 5) 30 5) = Some ''network down''"
    by (simp_all add: buyResult_def failEnv_def failedWith_def)
  note t1 = approved_buy_execution [OF oneBuy_fields a1]
  note t2 = approved_buy_execution [OF oneBuy_fields a2]
  have r1: "remainingAvailableCash (processDecision (sampleEnv 1000 [oneBuy]) startState oneBuy) = 400"
    using t1 s1 c by simp
  have p1: "t_pricing (stepRecord (sampleEnv 1000 [oneBuy]) startState oneBuy) = Some 101"
    using t1 e1 by (simp add: js_or_def truthy_def)
  have r2: "remainingAvailableCash (processDecision (failEnv ''network down'') startState oneBuy) = 1000"
    using t2 s2 c by simp
  have p2: "t_pricing (stepRecord (failEnv ''network down'') startState oneBuy) = Some 100"
    using t2 e2 by (simp add: js_or_def truthy_def)
  have l2: "l_reason (buyLogEntry (failEnv ''network down'') oneBuy
      (buyResult (failEnv ''network down'') startState oneBuy (buyPayload 100 30 5) 30 5) 30 5) =
     Some ''network down''"
    using t2 s2 e2 by simp
  from oneBuy_fields(1,2,6) a1 s1 r1 p1 a2 s2 r2 p2 l2 show ?thesis by blast
qed

subsection \<open>C7: a decision that lacks a required field\<close>

text \<open>
  Claim C7 as stated fails where it says that the trade record carries a block reason: the
  cycle below has one Buy without its payload, and the persisted cycle record holds the
  downgraded trade and the decision's own chat line, but no reason for the block.
\<close>

theorem missing_field_reason_counterexample:
  "ledger (snd (run (sampleEnv 1000 [missingBuy]) None emptyWorld)) =
     [\<lparr>c_reasoning = ''because'',
       c_chat = Combined [DecisionChat BTC ''enter''],
       c_userPrompt = fullPrompt,
       c_tradings =
         [\<lparr>t_symbol = BTC, t_opeartion = Hold, t_pricing = None, t_amount = None,
           t_leverage = None, t_prediction = Some samplePrediction,
           t_stopLoss = None, t_takeProfit = None\<rparr>]\<rparr>]"
  by code_simp

text \<open>
  Claim C7, amended: for every decision that lacks a field its operation requires (a Buy
  without pricing, amount or leverage, a Sell without percentage), the trade record has
  the operation Hold, the only trace of the cause is one fixed warning on the console
  (nothing is added to the chat beyond the decision's own line), the running balance is
  unchanged, and the loop goes on to the remaining decisions.
\<close>

theorem missing_field_downgraded_to_hold:
  assumes "requiredFieldMissing d"
  shows "t_opeartion (stepRecord e st d) = Hold \<and>
         stepEvents e st d = [Console (missingFieldWarning d)] \<and>
         stepChat e st d = ownChat d \<and>
         remainingAvailableCash (processDecision e st d) = remainingAvailableCash st \<and>
         (\<exists>rs. allTradingRecords (processDecisions e st (d # ds)) =
                  allTradingRecords st @ stepRecord e st d # rs \<and>
                map t_symbol rs = map symbol ds)"
  using missing_step [OF assms, of e st] loop_continues [of e st d ds] by simp

theorem missing_field_witness:
  "requiredFieldMissing missingBuy \<and>
   t_opeartion (stepRecord (sampleEnv 1000 [missingBuy, holdDecision ETH]) startState missingBuy) = Hold \<and>
   stepEvents (sampleEnv 1000 [missingBuy, holdDecision ETH]) startState missingBuy =
     [Console WarnBuyMissingFields] \<and>
   map t_symbol (allTradingRecords (processDecisions (sampleEnv 1000 [missingBuy, holdDecision ETH])
      startState [missingBuy, holdDecision ETH])) = [BTC, ETH]"
proof -
  have m: "requiredFieldMissing missingBuy" by code_simp
  note t = missing_field_downgraded_to_hold [OF m,
      of "sampleEnv 1000 [missingBuy, holdDecision ETH]" startState "[holdDecision ETH]"]
  have a: "t_opeartion (stepRecord (sampleEnv 1000 [missingBuy, holdDecision ETH])
      startState missingBuy) = Hold"
    using t by blast
  have w: "missingFieldWarning missingBuy = WarnBuyMissingFields" by code_simp
  have b: "stepEvents (sampleEnv 1000 [missingBuy, holdDecision ETH]) startState missingBuy =
     [Console WarnBuyMissingFields]"
    using t w by simp
  have c: "map t_symbol (allTradingRecords (processDecisions
      (sampleEnv 1000 [missingBuy, holdDecision ETH]) startState
      [missingBuy, holdDecision ETH])) = [BTC, ETH]"
    by code_simp
  from m a b c show ?thesis by blast
qed

subsection \<open>C8: a Sell the venue rejects\<close>

text \<open>
  Claim C8 as stated fails where it says that the trade record carries the failure reason:
  two cycles whose Sell fails for different reasons persist the same cycle record.
\<close>

theorem sell_failure_reason_counterexample:
  "ledger (snd (run (sellEnv ''No open position'') None emptyWorld)) =
     ledger (snd (run (sellEnv ''network down'') None emptyWorld)) \<and>
   map c_chat (ledger (snd (run (sellEnv ''No open position'') None emptyWorld))) =
     [Combined [DecisionChat BTC ''exit'', DecisionChat ETH ''wait'']] \<and>
   map c_tradings (ledger (snd (run (sellEnv ''No open position'') None emptyWorld))) =
     [[\<lparr>t_symbol = BTC, t_opeartion = Sell, t_pricing = None, t_amount = Some 0,
        t_leverage = None, t_prediction = Some samplePrediction,
        t_stopLoss = None, t_takeProfit = None\<rparr>,
       \<lparr>t_symbol = ETH, t_opeartion = Hold, t_pricing = None, t_amount = None,
        t_leverage = None, t_prediction = Some samplePrediction,
        t_stopLoss = None, t_takeProfit = None\<rparr>]]"
  by code_simp

text \<open>
  Claim C8, amended: for every Sell with a percentage whose order fails, one trade record
  with the operation Sell is still pushed; its amount is \<open>0\<close> unless the failed result
  reports a non-zero executed amount; the failure reason goes to the console and to
  \<^verbatim>\<open>logTrade\<close>, not into the trade record or the chat; the running balance is unchanged
  and the loop goes on to the remaining decisions.
\<close>

theorem failed_sell_recorded:
  assumes "opeartion d = Sell" "sell d = Some s" "percentage s = Some pct"
    and "\<not> success (sellResult e st d pct)"
  shows "stepRecord e st d =
           \<lparr>t_symbol = symbol d, t_opeartion = Sell,
            t_pricing = executedPrice (sellResult e st d pct),
            t_amount = js_or (executedAmount (sellResult e st d pct)) (Some 0),
            t_leverage = js_or (positionLeverage e st d) None,
            t_prediction = prediction d, t_stopLoss = None, t_takeProfit = None\<rparr> \<and>
         stepEvents e st d =
           lookupEvents e st @ SellCall (sellRequest d pct) #
           sellFailureEvents (sellResult e st d pct) @
           [LogTrade (sellLogEntry e d (sellResult e st d pct))] \<and>
         hd (sellFailureEvents (sellResult e st d pct)) =
           Console (ErrorSellFailed (error (sellResult e st d pct))) \<and>
         l_reason (sellLogEntry e d (sellResult e st d pct)) = error (sellResult e st d pct) \<and>
         stepChat e st d = ownChat d \<and>
         remainingAvailableCash (processDecision e st d) = remainingAvailableCash st \<and>
         (\<exists>rs. allTradingRecords (processDecisions e st (d # ds)) =
                  allTradingRecords st @ stepRecord e st d # rs \<and>
                map t_symbol rs = map symbol ds)"
proof -
  have s: "processDecision e st d = executeSell e (noteChat st d) d pct"
    using assms by (simp add: processDecision_def processSell_present)
  have r: "stepRecord e st d =
           \<lparr>t_symbol = symbol d, t_opeartion = Sell,
            t_pricing = executedPrice (sellResult e st d pct),
            t_amount = js_or (executedAmount (sellResult e st d pct)) (Some 0),
            t_leverage = js_or (positionLeverage e st d) None,
            t_prediction = prediction d, t_stopLoss = None, t_takeProfit = None\<rparr>"
    using assms(1) by (simp add: stepRecord_def s executeSell_record createTradingData_explicit)
  have v: "stepEvents e st d =
           lookupEvents e st @ SellCall (sellRequest d pct) #
           sellFailureEvents (sellResult e st d pct) @
           [LogTrade (sellLogEntry e d (sellResult e st d pct))]"
    by (simp add: stepEvents_def s executeSell_frame)
  have f: "hd (sellFailureEvents (sellResult e st d pct)) =
           Console (ErrorSellFailed (error (sellResult e st d pct)))"
    using assms(4) by (simp add: sellFailureEvents_def)
  have l: "l_reason (sellLogEntry e d (sellResult e st d pct)) = error (sellResult e st d pct)"
    using assms(4) by (simp add: sellLogEntry_def)
  have h: "stepChat e st d = ownChat d"
    by (simp add: stepChat_def s executeSell_frame noteChat_chat)
  have m: "remainingAvailableCash (processDecision e st d) = remainingAvailableCash st"
    by (simp add: s executeSell_frame)
  from r v f l h m loop_continues [of e st d ds] show ?thesis by blast
qed

text \<open>The scenario of the specification: a Sell with no open position, followed by a Hold.\<close>

theorem failed_sell_witness:
  "opeartion oneSell = Sell \<and> sell oneSell = Some \<lparr>percentage = Some 50\<rparr> \<and>
   \<not> success (sellResult (sellEnv ''No open position'') startState oneSell 50) \<and>
   t_amount (stepRecord (sellEnv ''No open position'') startState oneSell) = Some 0 \<and>
   t_opeartion (stepRecord (sellEnv ''No open position'') startState oneSell) = Sell \<and>
   l_reason (sellLogEntry (sellEnv ''No open position'') oneSell
       (sellResult (sellEnv ''No open position'') startState oneSell 50)) = Some ''No open position'' \<and>
   map t_symbol (allTradingRecords (processDecisions (sellEnv ''No open position'') startState
       [oneSell, holdDecision ETH])) = [BTC, ETH]"
proof -
  have s: "\<not> success (sellResult (sellEnv ''No open position'') startState oneSell 50)"
    by (simp add: sellResult_def sellEnv_def failedWith_def)
  have x: "executedAmount (sellResult (sellEnv ''No open position'') startState oneSell 50) = None"
      "error (sellResult (sellEnv ''No open position'') startState oneSell 50) =
         Some ''No open position''"
    by (simp_all add: sellResult_def sellEnv_def failedWith_def)
  note t = failed_sell_recorded [OF oneSell_fields s, of "[holdDecision ETH]"]
  have a: "t_amount (stepRecord (sellEnv ''No open position'') startState oneSell) = Some 0"
    using t x by (simp add: js_or_def truthy_def)
  have b: "t_opeartion (stepRecord (sellEnv ''No open position'') startState oneSell) = Sell"
    using t by simp
  have l: "l_reason (sellLogEntry (sellEnv ''No open position'') oneSell
       (sellResult (sellEnv ''No open position'') startState oneSell 50)) = Some ''No open position''"
    using t x by simp
  have c: "map t_symbol (allTradingRecords (processDecisions (sellEnv ''No open position'')
       startState [oneSell, holdDecision ETH])) = [BTC, ETH]"
    by code_simp
  from oneSell_fields(1,2) s a b l c show ?thesis by blast
qed

subsection \<open>C9: snapshot collection\<close>

text \<open>
  Claim C9: the collection step fetches each of the five configured instruments once and
  never rejects as a whole; its result is exactly the successful subset; an instrument
  whose fetch succeeds is in the subset whatever happens to the others, an instrument
  whose fetch fails is left out and a warning is logged for it; and the cycle goes on to
  the prompt with that subset, also when it is empty.
\<close>

theorem snapshot_collection_tolerates_failures:
  "(\<exists>ms. promise_all (fst (fetchAll e tr supportedSymbols)) = Inr ms \<and> length ms = 5 \<and>
         validMarketStates ms = snapshots e tr supportedSymbols) \<and>
   [s. FetchMarketState s \<leftarrow> newEvents tr (snd (fetchAll e tr supportedSymbols))] =
     supportedSymbols \<and>
   (\<forall>s \<in> set supportedSymbols. (\<forall>h. fetched (getCurrentMarketState e h s)) \<longrightarrow>
      s \<in> fst ` set (snapshots e tr supportedSymbols)) \<and>
   (\<forall>s \<in> set supportedSymbols. (\<forall>h. \<not> fetched (getCurrentMarketState e h s)) \<longrightarrow>
      s \<notin> fst ` set (snapshots e tr supportedSymbols) \<and>
      Console (WarnFetchFailed s) \<in> set (newEvents tr (snd (fetchAll e tr supportedSymbols)))) \<and>
   (\<forall>err. fst (gather e ic tr) \<noteq> Inl (MarketCollectionRejected err)) \<and>
   (\<forall>acct. getAccountInformationAndPerformance e (snd (fetchAll e tr supportedSymbols)) ic =
        Inr acct \<longrightarrow>
      fst (gather e ic tr) =
        Inr (acct, generateUserPrompt e (snapshots e tr supportedSymbols) acct,
             getTradingPrompt e supportedSymbolEnums))"
proof -
  from fetchAll_settled [of e tr supportedSymbols] obtain ms where
    m: "fst (fetchAll e tr supportedSymbols) = map Inr ms" "length ms = length supportedSymbols"
       "validMarketStates ms = snapshots e tr supportedSymbols" by blast
  have 1: "\<exists>ms. promise_all (fst (fetchAll e tr supportedSymbols)) = Inr ms \<and> length ms = 5 \<and>
         validMarketStates ms = snapshots e tr supportedSymbols"
    using m by (simp add: supportedSymbols_def)
  from fetchAll_events [of e tr supportedSymbols]
  have 2: "[s. FetchMarketState s \<leftarrow> newEvents tr (snd (fetchAll e tr supportedSymbols))] =
     supportedSymbols" by auto
  have 3: "\<forall>s \<in> set supportedSymbols. (\<forall>h. fetched (getCurrentMarketState e h s)) \<longrightarrow>
      s \<in> fst ` set (snapshots e tr supportedSymbols)"
    using snapshots_keeps by blast
  have 4: "\<forall>s \<in> set supportedSymbols. (\<forall>h. \<not> fetched (getCurrentMarketState e h s)) \<longrightarrow>
      s \<notin> fst ` set (snapshots e tr supportedSymbols) \<and>
      Console (WarnFetchFailed s) \<in> set (newEvents tr (snd (fetchAll e tr supportedSymbols)))"
    using snapshots_drops fetchAll_warns by blast
  have 5: "\<forall>err. fst (gather e ic tr) \<noteq> Inl (MarketCollectionRejected err)"
    by (simp add: gather_eq split: sum.splits)
  have 6: "\<forall>acct. getAccountInformationAndPerformance e (snd (fetchAll e tr supportedSymbols)) ic =
        Inr acct \<longrightarrow>
      fst (gather e ic tr) =
        Inr (acct, generateUserPrompt e (snapshots e tr supportedSymbols) acct,
             getTradingPrompt e supportedSymbolEnums)"
    by (simp add: gather_eq)
  from 1 2 3 4 5 6 show ?thesis by blast
qed

theorem snapshot_collection_witness:
  "(\<forall>h. fetched (getCurrentMarketState partialEnv h ''BTC/USDT'')) \<and>
   (\<forall>h. \<not> fetched (getCurrentMarketState partialEnv h ''ETH/USDT'')) \<and>
   ''BTC/USDT'' \<in> fst ` set (snapshots partialEnv [] supportedSymbols) \<and>
   ''ETH/USDT'' \<notin> fst ` set (snapshots partialEnv [] supportedSymbols) \<and>
   Console (WarnFetchFailed ''ETH/USDT'') \<in>
     set (newEvents [] (snd (fetchAll partialEnv [] supportedSymbols))) \<and>
   map fst (snapshots partialEnv [] supportedSymbols) = [''BTC/USDT'', ''SOL/USDT'', ''BNB/USDT''] \<and>
   getAccountInformationAndPerformance noMarketEnv
     (snd (fetchAll noMarketEnv [] supportedSymbols)) None = Inr (accountWith 1000) \<and>
   snapshots noMarketEnv [] supportedSymbols = [] \<and>
   fst (gather noMarketEnv None []) = Inr (accountWith 1000, [], ''system'') \<and>
   fst (run noMarketEnv None emptyWorld) = Inr ()"
proof -
  have h1: "\<forall>h. fetched (getCurrentMarketState partialEnv h ''BTC/USDT'')"
    by (simp add: partialEnv_def)
  have h2: "\<forall>h. \<not> fetched (getCurrentMarketState partialEnv h ''ETH/USDT'')"
    by (simp add: partialEnv_def)
  have s1: "''BTC/USDT'' \<in> set supportedSymbols" "''ETH/USDT'' \<in> set supportedSymbols"
    by (simp_all add: supportedSymbols_def)
  note t = snapshot_collection_tolerates_failures [of partialEnv "[]" None]
  have a: "''BTC/USDT'' \<in> fst ` set (snapshots partialEnv [] supportedSymbols)"
    using t h1 s1(1) by blast
  have b: "''ETH/USDT'' \<notin> fst ` set (snapshots partialEnv [] supportedSymbols)"
    using t h2 s1(2) by blast
  have c: "Console (WarnFetchFailed ''ETH/USDT'') \<in>
     set (newEvents [] (snd (fetchAll partialEnv [] supportedSymbols)))"
    using t h2 s1(2) by blast
  have d: "map fst (snapshots partialEnv [] supportedSymbols) =
     [''BTC/USDT'', ''SOL/USDT'', ''BNB/USDT'']"
    by code_simp
  have acc: "getAccountInformationAndPerformance noMarketEnv
     (snd (fetchAll noMarketEnv [] supportedSymbols)) None = Inr (accountWith 1000)"
    by (simp add: noMarketEnv_def sampleEnv_def)
  have n: "snapshots noMarketEnv [] supportedSymbols = []"
    by code_simp
  note u = snapshot_collection_tolerates_failures [of noMarketEnv "[]" None]
  have p: "generateUserPrompt noMarketEnv [] (accountWith 1000) = []"
     "getTradingPrompt noMarketEnv supportedSymbolEnums = ''system''"
    by (simp_all add: noMarketEnv_def sampleEnv_def)
  have g: "fst (gather noMarketEnv None []) = Inr (accountWith 1000, [], ''system'')"
    using u acc n p by simp
  have r: "fst (run noMarketEnv None emptyWorld) = Inr ()"
    by code_simp
  from h1 h2 a b c d acc n g r show ?thesis by blast
qed

subsection \<open>C10: the records of a blocked cycle\<close>

text \<open>
  Claim C10 as stated fails for a price or an amount of \<open>0\<close>: the fallback chain of
  \<^verbatim>\<open>createTradingData\<close> ends in \<^verbatim>\<open>|| null\<close>, so the record of a blocked decision
  holds \<^verbatim>\<open>null\<close> where the decision holds \<open>0\<close>.
\<close>

theorem blocked_record_zero_counterexample:
  "map buy_pricing [holdWithZeros] = [Some 0] \<and>
   map buy_amount [holdWithZeros] = [Some 0] \<and>
   \<not> allowed (dailyLossCheck (lossEnv [holdWithZeros]) lossAccount) \<and>
   map c_tradings (ledger (snd (run (lossEnv [holdWithZeros]) None emptyWorld))) =
     [[\<lparr>t_symbol = BTC, t_opeartion = Hold, t_pricing = None, t_amount = None,
        t_leverage = Some 1, t_prediction = Some samplePrediction,
        t_stopLoss = None, t_takeProfit = None\<rparr>]]"
  by code_simp

text \<open>
  Claim C10, amended: when the daily-loss gate blocks a cycle, the one cycle record that is
  written holds, for every decision in order, a trade record with the decision's symbol,
  leverage and prediction unchanged, its price and amount unchanged except that \<open>0\<close> is
  stored as \<^verbatim>\<open>null\<close>, and the operation Hold.
\<close>

theorem blocked_records_preserve_decision:
  assumes "prepare e ic (w_trace w) = (Inr (acct, up, rt, ds), tr)"
    and "\<not> allowed (dailyLossCheck e acct)"
  shows "filter is_ChatCreate (cycleEvents e ic w) = [ChatCreate (blockedRecord e acct up rt ds)] \<and>
         c_tradings (blockedRecord e acct up rt ds) = map blockedTrading ds"
proof -
  from prepare_Inr [OF assms(1)] obtain raw where
    r: "list_all decisionSchema raw" "ds = map stripDecision raw" by blast
  have "map (\<lambda>d. createTradingData d holdOverride) (map stripDecision raw) =
        map blockedTrading (map stripDecision raw)"
    using r(1) by (simp add: list_all_iff blockedTrading_eq)
  then have "c_tradings (blockedRecord e acct up rt ds) = map blockedTrading ds"
    by (simp add: blockedRecord_def r(2))
  moreover from prepare_events [OF assms(1)] obtain evs tp where
    t: "tr = w_trace w @ evs @ [OracleCall tp up]" "list_all gatherEvent evs" by blast
  have "filter is_ChatCreate (cycleEvents e ic w) = [ChatCreate (blockedRecord e acct up rt ds)]"
    using gatherEvent_classes [OF t(2)]
    by (simp add: cycleEvents_def run_blocked(3) [OF assms] t(1) dailyLossLine_def
        split: option.splits)
  ultimately show ?thesis by blast
qed

theorem blocked_records_witness:
  "prepare (lossEnv twoBuys) None (w_trace emptyWorld) =
     (Inr (lossAccount, fullPrompt, ''because'', twoBuys),
      snd (prepare (lossEnv twoBuys) None (w_trace emptyWorld))) \<and>
   \<not> allowed (dailyLossCheck (lossEnv twoBuys) lossAccount) \<and>
   c_tradings (blockedRecord (lossEnv twoBuys) lossAccount fullPrompt ''because'' twoBuys) =
     [\<lparr>t_symbol = BTC, t_opeartion = Hold, t_pricing = Some 100, t_amount = Some 30,
       t_leverage = Some 5, t_prediction = Some samplePrediction,
       t_stopLoss = None, t_takeProfit = None\<rparr>,
      \<lparr>t_symbol = ETH, t_opeartion = Hold, t_pricing = Some 100, t_amount = Some 30,
       t_leverage = Some 5, t_prediction = Some samplePrediction,
       t_stopLoss = None, t_takeProfit = None\<rparr>]"
proof -
  have p: "prepare (lossEnv twoBuys) None (w_trace emptyWorld) =
     (Inr (lossAccount, fullPrompt, ''because'', twoBuys),
      snd (prepare (lossEnv twoBuys) None (w_trace emptyWorld)))"
    by code_simp
  have d: "\<not> allowed (dailyLossCheck (lossEnv twoBuys) lossAccount)"
    by code_simp
  note t = blocked_records_preserve_decision [OF p d]
  have m: "map blockedTrading twoBuys =
     [\<lparr>t_symbol = BTC, t_opeartion = Hold, t_pricing = Some 100, t_amount = Some 30,
       t_leverage = Some 5, t_prediction = Some samplePrediction,
       t_stopLoss = None, t_takeProfit = None\<rparr>,
      \<lparr>t_symbol = ETH, t_opeartion = Hold, t_pricing = Some 100, t_amount = Some 30,
       t_leverage = Some 5, t_prediction = Some samplePrediction,
       t_stopLoss = None, t_takeProfit = None\<rparr>]"
    by code_simp
  have c: "c_tradings (blockedRecord (lossEnv twoBuys) lossAccount fullPrompt ''because'' twoBuys) =
     [\<lparr>t_symbol = BTC, t_opeartion = Hold, t_pricing = Some 100, t_amount = Some 30,
       t_leverage = Some 5, t_prediction = Some samplePrediction,
       t_stopLoss = None, t_takeProfit = None\<rparr>,
      \<lparr>t_symbol = ETH, t_opeartion = Hold, t_pricing = Some 100, t_amount = Some 30,
       t_leverage = Some 5, t_prediction = Some samplePrediction,
       t_stopLoss = None, t_takeProfit = None\<rparr>]"
    using t m by simp
  from p d c show ?thesis by blast
qed

end
